theory Spec2Isabelle
  imports Main
begin

section \<open>The host machine as seen by \<^verbatim>\<open>scripts/setup-env.py\<close>\<close>

text \<open>
  The script talks to its host through four library calls: \<^verbatim>\<open>platform.system()\<close>,
  \<^verbatim>\<open>platform.machine()\<close>, \<^verbatim>\<open>shutil.which(name)\<close> and \<^verbatim>\<open>subprocess.run(cmd, shell=True, ...)\<close>.
  The host is a value of an arbitrary type \<open>'w\<close>; the four calls are the fields of an
  interface record, so every theorem below holds for every behaviour of the host.
  Running a shell command may change the host (an installer puts a new executable on the
  path), so \<open>shell\<close> returns the host after the command together with what
  \<^verbatim>\<open>subprocess.run\<close> observed.

  \<^verbatim>\<open>subprocess.run\<close> either hands back a completed process (exit status, captured error
  stream) or raises before it can do so (\<^verbatim>\<open>OSError\<close> when the shell cannot be spawned,
  \<^verbatim>\<open>UnicodeDecodeError\<close> when \<^verbatim>\<open>text=True\<close> cannot decode the captured output, ...).
  \<^verbatim>\<open>CalledProcessError\<close> is not among these: it is raised by \<^verbatim>\<open>check=True\<close> from a
  completed process with a non-zero status, and is modelled where \<open>run_command\<close> asks for it.

  Strings are byte strings; the names the script compares are ASCII.
\<close>

datatype proc =
    Completed int string   \<comment> \<open>\<^verbatim>\<open>returncode\<close>, \<^verbatim>\<open>stderr\<close>\<close>
  | Raised                 \<comment> \<open>\<^verbatim>\<open>subprocess.run\<close> itself raised\<close>

record 'w host =
  platform_system :: "'w \<Rightarrow> string"
  platform_machine :: "'w \<Rightarrow> string"
  which :: "'w \<Rightarrow> string \<Rightarrow> bool"   \<comment> \<open>\<^verbatim>\<open>shutil.which(name)\<close> is not \<^verbatim>\<open>None\<close>\<close>
  shell :: "'w \<Rightarrow> string \<Rightarrow> proc \<times> 'w"

text \<open>
  The running script: the host, the lines printed so far (one entry per \<^verbatim>\<open>print\<close> call)
  and the commands handed to \<^verbatim>\<open>subprocess.run\<close> so far, oldest first.
\<close>

record 'w run =
  world :: 'w
  stdout :: "string list"
  dispatched :: "string list"

definition print :: "string \<Rightarrow> 'w run \<Rightarrow> 'w run" where
  "print line s = s\<lparr>stdout := stdout s @ [line]\<rparr>"

definition subprocess_run :: "'w host \<Rightarrow> string \<Rightarrow> 'w run \<Rightarrow> proc \<times> 'w run" where
  "subprocess_run h cmd s =
     (case shell h (world s) cmd of
        (p, w') \<Rightarrow> (p, s\<lparr>world := w', dispatched := dispatched s @ [cmd]\<rparr>))"

text \<open>Exceptions that can leave a function of the script.\<close>

datatype exn =
    SystemExit int        \<comment> \<open>\<^verbatim>\<open>sys.exit(n)\<close>\<close>
  | SubprocessFailure     \<comment> \<open>an exception of \<^verbatim>\<open>subprocess.run\<close> other than \<^verbatim>\<open>CalledProcessError\<close>\<close>

subsection \<open>String helpers of the Python runtime (ASCII)\<close>

definition lower_char :: "char \<Rightarrow> char" where
  "lower_char c =
     (let n = (of_char c :: nat) in if 65 \<le> n \<and> n \<le> 90 then char_of (n + 32) else c)"

definition upper_char :: "char \<Rightarrow> char" where
  "upper_char c =
     (let n = (of_char c :: nat) in if 97 \<le> n \<and> n \<le> 122 then char_of (n - 32) else c)"

definition is_cased :: "char \<Rightarrow> bool" where
  "is_cased c =
     (let n = (of_char c :: nat) in (65 \<le> n \<and> n \<le> 90) \<or> (97 \<le> n \<and> n \<le> 122))"

definition lower :: "string \<Rightarrow> string" where
  "lower s = map lower_char s"

text \<open>\<^verbatim>\<open>str.title()\<close>: a cased character is upper-cased after an uncased one (or at the
  start) and lower-cased after a cased one.\<close>

fun title_from :: "bool \<Rightarrow> string \<Rightarrow> string" where
  "title_from prev [] = []"
| "title_from prev (c # cs) =
     (if is_cased c
      then (if prev then lower_char c else upper_char c) # title_from True cs
      else c # title_from False cs)"

definition title :: "string \<Rightarrow> string" where
  "title s = title_from False s"

text \<open>\<^verbatim>\<open>str(n)\<close> for the two counters of \<open>main\<close>.\<close>

function str_nat :: "nat \<Rightarrow> string" where
  "str_nat n =
     (if n < 10 then [char_of (48 + n)]
      else str_nat (n div 10) @ [char_of (48 + n mod 10)])"
  by pat_completeness auto
termination
  by (relation "measure (\<lambda>n. n)") auto

declare str_nat.simps [simp del]

text \<open>The pictographs of the status lines, as their UTF-8 bytes.\<close>

definition check_mark :: string where      \<comment> \<open>U+2705\<close>
  "check_mark = [CHR 0xE2, CHR 0x9C, CHR 0x85]"

definition cross_mark :: string where      \<comment> \<open>U+274C\<close>
  "cross_mark = [CHR 0xE2, CHR 0x9D, CHR 0x8C]"

definition package :: string where         \<comment> \<open>U+1F4E6\<close>
  "package = [CHR 0xF0, CHR 0x9F, CHR 0x93, CHR 0xA6]"

definition magnifier :: string where       \<comment> \<open>U+1F50D\<close>
  "magnifier = [CHR 0xF0, CHR 0x9F, CHR 0x94, CHR 0x8D]"

definition clipboard :: string where       \<comment> \<open>U+1F4CB\<close>
  "clipboard = [CHR 0xF0, CHR 0x9F, CHR 0x93, CHR 0x8B]"

definition party :: string where           \<comment> \<open>U+1F389\<close>
  "party = [CHR 0xF0, CHR 0x9F, CHR 0x8E, CHR 0x89]"

definition warning_sign :: string where    \<comment> \<open>U+26A0 U+FE0F\<close>
  "warning_sign = [CHR 0xE2, CHR 0x9A, CHR 0xA0, CHR 0xEF, CHR 0xB8, CHR 0x8F]"

section \<open>\<^verbatim>\<open>class SystemDetector\<close>\<close>

record SystemDetector =
  system :: string
  machine :: string
  is_windows :: bool
  is_linux :: bool
  is_macos :: bool

text \<open>\<^verbatim>\<open>SystemDetector.__init__\<close>\<close>

definition SystemDetector_init :: "'w host \<Rightarrow> 'w \<Rightarrow> SystemDetector" where
  "SystemDetector_init h w =
     (let sys = lower (platform_system h w);
          mach = lower (platform_machine h w)
      in \<lparr>system = sys, machine = mach,
          is_windows = (sys = ''windows''),
          is_linux = (sys = ''linux''),
          is_macos = (sys = ''darwin'')\<rparr>)"

text \<open>\<^verbatim>\<open>SystemDetector.get_package_manager\<close>: a branch of the outer chain whose inner
  chain finds nothing falls through to the final \<^verbatim>\<open>return None\<close>.\<close>

definition get_package_manager :: "'w host \<Rightarrow> SystemDetector \<Rightarrow> 'w \<Rightarrow> string option" where
  "get_package_manager h d w =
     (if is_windows d then
        (if which h w ''winget'' then Some ''winget''
         else if which h w ''choco'' then Some ''choco''
         else if which h w ''scoop'' then Some ''scoop''
         else None)
      else if is_linux d then
        (if which h w ''apt'' then Some ''apt''
         else if which h w ''dnf'' then Some ''dnf''
         else if which h w ''yum'' then Some ''yum''
         else if which h w ''pacman'' then Some ''pacman''
         else None)
      else if is_macos d then
        (if which h w ''brew'' then Some ''brew'' else None)
      else None)"

section \<open>\<^verbatim>\<open>class ToolInstaller\<close>\<close>

record ToolInstaller =
  detector :: SystemDetector
  pkg_mgr :: "string option"

text \<open>\<^verbatim>\<open>ToolInstaller.__init__\<close>\<close>

definition ToolInstaller_init :: "'w host \<Rightarrow> SystemDetector \<Rightarrow> 'w \<Rightarrow> ToolInstaller" where
  "ToolInstaller_init h d w = \<lparr>detector = d, pkg_mgr = get_package_manager h d w\<rparr>"

text \<open>Truth value of an optional string argument: \<^verbatim>\<open>None\<close> and \<^verbatim>\<open>""\<close> are false.\<close>

fun truthy :: "string option \<Rightarrow> bool" where
  "truthy None = False"
| "truthy (Some v) = (v \<noteq> [])"

text \<open>\<^verbatim>\<open>ToolInstaller.check_tool\<close>. The bare \<^verbatim>\<open>except:\<close> catches whatever
  \<^verbatim>\<open>subprocess.run\<close> raises; without \<^verbatim>\<open>check=True\<close> an exit status is never an error.\<close>

definition check_tool ::
  "'w host \<Rightarrow> string \<Rightarrow> string option \<Rightarrow> string option \<Rightarrow> 'w run \<Rightarrow> (bool \<times> string) \<times> 'w run"
where
  "check_tool h tool_name version_cmd min_version s =
     (if \<not> which h (world s) tool_name then ((False, ''Not installed''), s)
      else if truthy version_cmd \<and> truthy min_version then
        (case subprocess_run h (the version_cmd) s of
           (Completed rc err, s') \<Rightarrow> ((True, ''Installed''), s')
         | (Raised, s') \<Rightarrow> ((False, ''Version check failed''), s'))
      else ((True, ''Installed''), s))"

text \<open>\<^verbatim>\<open>ToolInstaller.run_command\<close>. \<^verbatim>\<open>check=True\<close> turns a non-zero exit status into
  \<^verbatim>\<open>CalledProcessError\<close>, the only exception the handler names; anything else
  \<^verbatim>\<open>subprocess.run\<close> raises leaves the function.\<close>

definition run_command ::
  "'w host \<Rightarrow> string \<Rightarrow> string \<Rightarrow> 'w run \<Rightarrow> (exn + bool) \<times> 'w run"
where
  "run_command h cmd description s =
     (case subprocess_run h cmd (print (package @ '' '' @ description) s) of
        (Completed rc err, s') \<Rightarrow>
          (if rc = 0 then (Inr True, print (check_mark @ '' Success: '' @ description) s')
           else (Inr False,
                 print (''Error: '' @ err) (print (cross_mark @ '' Failed: '' @ description) s')))
      | (Raised, s') \<Rightarrow> (Inl SubprocessFailure, s'))"

text \<open>\<^verbatim>\<open>ToolInstaller.install_cmake\<close>\<close>

definition install_cmake :: "'w host \<Rightarrow> ToolInstaller \<Rightarrow> 'w run \<Rightarrow> (exn + bool) \<times> 'w run" where
  "install_cmake h I s =
     (case check_tool h ''cmake'' (Some ''cmake --version'') None s of
        ((installed, status), s1) \<Rightarrow>
          if installed then (Inr True, print (check_mark @ '' CMake: '' @ status) s1)
          else
            let s2 = print (package @ '' Installing CMake...'') s1 in
            if pkg_mgr I = Some ''winget'' then
              run_command h ''winget install Kitware.CMake'' ''Installing CMake via winget'' s2
            else if pkg_mgr I = Some ''choco'' then
              run_command h ''choco install cmake'' ''Installing CMake via chocolatey'' s2
            else if pkg_mgr I = Some ''apt'' then
              run_command h ''sudo apt update && sudo apt install -y cmake''
                ''Installing CMake via apt'' s2
            else if pkg_mgr I = Some ''dnf'' then
              run_command h ''sudo dnf install -y cmake'' ''Installing CMake via dnf'' s2
            else if pkg_mgr I = Some ''yum'' then
              run_command h ''sudo yum install -y cmake'' ''Installing CMake via yum'' s2
            else if pkg_mgr I = Some ''pacman'' then
              run_command h ''sudo pacman -S --noconfirm cmake'' ''Installing CMake via pacman'' s2
            else if pkg_mgr I = Some ''brew'' then
              run_command h ''brew install cmake'' ''Installing CMake via homebrew'' s2
            else
              (Inr False,
               print ''Please install CMake manually from: https://cmake.org/download/''
                 (print (cross_mark @ '' No supported package manager found for CMake installation'')
                    s2)))"

text \<open>\<^verbatim>\<open>ToolInstaller.install_compiler\<close>: the candidate list and the loop over it.\<close>

definition compilers :: "ToolInstaller \<Rightarrow> string list" where
  "compilers I =
     (if is_windows (detector I) then [''g++'', ''clang++'', ''cl''] else [''g++'', ''clang++''])"

definition install_compiler :: "'w host \<Rightarrow> ToolInstaller \<Rightarrow> 'w run \<Rightarrow> (exn + bool) \<times> 'w run" where
  "install_compiler h I s =
     (case find (which h (world s)) (compilers I) of
        Some compiler \<Rightarrow>
          (Inr True, print (check_mark @ '' C++ Compiler: '' @ compiler @ '' installed'') s)
      | None \<Rightarrow>
          let s1 = print ''----- Installing C++ compiler -----'' s in
          if is_windows (detector I) then
            (Inr True,
             print ''  - Clang/LLVM''
               (print ''  - MinGW-w64''
                  (print ''  - Visual Studio Build Tools''
                     (print ''  - Visual Studio 2019/2022 with C++ workload''
                        (print ''Please ensure one of the following is installed:'' s1)))))
          else if pkg_mgr I = Some ''apt'' then
            run_command h ''sudo apt install -y build-essential'' ''Installing GCC via apt'' s1
          else if pkg_mgr I = Some ''dnf'' then
            run_command h (''sudo dnf groupinstall -y '' @ [CHR 0x27] @ ''Development Tools''
                           @ [CHR 0x27]) ''Installing GCC via dnf'' s1
          else if pkg_mgr I = Some ''yum'' then
            run_command h (''sudo yum groupinstall -y '' @ [CHR 0x27] @ ''Development Tools''
                           @ [CHR 0x27]) ''Installing GCC via yum'' s1
          else if pkg_mgr I = Some ''pacman'' then
            run_command h ''sudo pacman -S --noconfirm base-devel'' ''Installing GCC via pacman'' s1
          else if pkg_mgr I = Some ''brew'' then
            run_command h ''xcode-select --install'' ''Installing Xcode Command Line Tools''
              (print (check_mark @ '' Clang should be available via Xcode Command Line Tools'') s1)
          else
            (Inr False,
             print (cross_mark @ '' No supported package manager found for compiler installation'')
               s1))"

text \<open>\<^verbatim>\<open>ToolInstaller.install_git\<close>\<close>

definition install_git :: "'w host \<Rightarrow> ToolInstaller \<Rightarrow> 'w run \<Rightarrow> (exn + bool) \<times> 'w run" where
  "install_git h I s =
     (case check_tool h ''git'' (Some ''git --version'') None s of
        ((installed, status), s1) \<Rightarrow>
          if installed then (Inr True, print (check_mark @ '' Git: '' @ status) s1)
          else if pkg_mgr I = Some ''winget'' then
            run_command h ''winget install Git.Git'' ''Installing Git via winget'' s1
          else if pkg_mgr I = Some ''choco'' then
            run_command h ''choco install git'' ''Installing Git via chocolatey'' s1
          else if pkg_mgr I = Some ''apt'' then
            run_command h ''sudo apt install -y git'' ''Installing Git via apt'' s1
          else if pkg_mgr I = Some ''dnf'' then
            run_command h ''sudo dnf install -y git'' ''Installing Git via dnf'' s1
          else if pkg_mgr I = Some ''yum'' then
            run_command h ''sudo yum install -y git'' ''Installing Git via yum'' s1
          else if pkg_mgr I = Some ''pacman'' then
            run_command h ''sudo pacman -S --noconfirm git'' ''Installing Git via pacman'' s1
          else if pkg_mgr I = Some ''brew'' then
            run_command h ''brew install git'' ''Installing Git via homebrew'' s1
          else
            (Inr False,
             print (cross_mark @ '' No supported package manager found for Git installation'') s1))"

text \<open>\<^verbatim>\<open>success &= self.run_command(...)\<close>: the conjunction is taken only when the call
  returns.\<close>

definition and_assign ::
  "bool \<Rightarrow> (exn + bool) \<times> 'w run \<Rightarrow> (exn + bool) \<times> 'w run"
where
  "and_assign success r =
     (case r of (Inl e, s') \<Rightarrow> (Inl e, s') | (Inr b, s') \<Rightarrow> (Inr (success \<and> b), s'))"

text \<open>\<^verbatim>\<open>ToolInstaller.install_coverage_tools\<close>, non-Windows branch, the block under
  \<^verbatim>\<open># Install gcovr via package manager only\<close>: from the flag \<open>gcovr_installed\<close> and the
  current \<open>success\<close> to the new \<open>success\<close>.\<close>

definition coverage_gcovr ::
  "'w host \<Rightarrow> ToolInstaller \<Rightarrow> bool \<Rightarrow> bool \<Rightarrow> 'w run \<Rightarrow> (exn + bool) \<times> 'w run"
where
  "coverage_gcovr h I gcovr_installed success s =
     (if \<not> gcovr_installed then
        (if pkg_mgr I = Some ''apt'' then
           and_assign success
             (run_command h ''sudo apt install -y gcovr'' ''Installing gcovr via apt'' s)
         else if pkg_mgr I = Some ''dnf'' then
           and_assign success
             (run_command h ''sudo dnf install -y gcovr'' ''Installing gcovr via dnf'' s)
         else if pkg_mgr I = Some ''yum'' then
           and_assign success
             (run_command h ''sudo yum install -y gcovr'' ''Installing gcovr via yum'' s)
         else if pkg_mgr I = Some ''pacman'' then
           and_assign success
             (run_command h ''sudo pacman -S --noconfirm gcovr'' ''Installing gcovr via pacman'' s)
         else if pkg_mgr I = Some ''brew'' then
           and_assign success
             (run_command h ''brew install gcovr'' ''Installing gcovr via homebrew'' s)
         else
           (Inr False,
            print (cross_mark
                   @ '' gcovr not available via package manager. Please install manually.'') s))
      else (Inr success, print (check_mark @ '' gcovr: Already installed'') s))"

text \<open>The block under \<^verbatim>\<open># Install lcov via package manager\<close>.\<close>

definition coverage_lcov ::
  "'w host \<Rightarrow> ToolInstaller \<Rightarrow> bool \<Rightarrow> bool \<Rightarrow> 'w run \<Rightarrow> (exn + bool) \<times> 'w run"
where
  "coverage_lcov h I lcov_installed success s =
     (if \<not> lcov_installed then
        (if pkg_mgr I = Some ''apt'' then
           and_assign success
             (run_command h ''sudo apt install -y lcov'' ''Installing lcov via apt'' s)
         else if pkg_mgr I = Some ''dnf'' then
           and_assign success
             (run_command h ''sudo dnf install -y lcov'' ''Installing lcov via dnf'' s)
         else if pkg_mgr I = Some ''yum'' then
           and_assign success
             (run_command h ''sudo yum install -y lcov'' ''Installing lcov via yum'' s)
         else if pkg_mgr I = Some ''pacman'' then
           and_assign success
             (run_command h ''sudo pacman -S --noconfirm lcov'' ''Installing lcov via pacman'' s)
         else if pkg_mgr I = Some ''brew'' then
           and_assign success
             (run_command h ''brew install lcov'' ''Installing lcov via homebrew'' s)
         else
           (Inr False,
            print (cross_mark
                   @ '' lcov not available via package manager. Please install manually.'') s))
      else (Inr success, print (check_mark @ '' lcov: Already installed'') s))"

text \<open>\<^verbatim>\<open>ToolInstaller.install_coverage_tools\<close>. Both presence flags are read before either
  block runs.\<close>

definition install_coverage_tools ::
  "'w host \<Rightarrow> ToolInstaller \<Rightarrow> 'w run \<Rightarrow> (exn + bool) \<times> 'w run"
where
  "install_coverage_tools h I s =
     (if is_windows (detector I) then
        (if which h (world s) ''OpenCppCoverage'' then
           (Inr True, print (check_mark @ '' OpenCppCoverage: Installed'') s)
         else if pkg_mgr I = Some ''choco'' then
           run_command h ''choco install opencppcoverage''
             ''Installing OpenCppCoverage via chocolatey'' s
         else
           (Inr False,
            print ''https://github.com/OpenCppCoverage/OpenCppCoverage/releases''
              (print (cross_mark @ '' Please install OpenCppCoverage manually from:'') s)))
      else
        (let gcovr_installed = which h (world s) ''gcovr'';
             lcov_installed = which h (world s) ''lcov''
         in if gcovr_installed \<and> lcov_installed then
              (Inr True,
               print (check_mark @ '' lcov: Installed'')
                 (print (check_mark @ '' gcovr: Installed'') s))
            else
              (case coverage_gcovr h I gcovr_installed True s of
                 (Inl e, s1) \<Rightarrow> (Inl e, s1)
               | (Inr success, s1) \<Rightarrow> coverage_lcov h I lcov_installed success s1)))"

text \<open>\<^verbatim>\<open>ToolInstaller.install_doxygen\<close>\<close>

definition install_doxygen :: "'w host \<Rightarrow> ToolInstaller \<Rightarrow> 'w run \<Rightarrow> (exn + bool) \<times> 'w run" where
  "install_doxygen h I s =
     (case check_tool h ''doxygen'' (Some ''doxygen --version'') None s of
        ((installed, status), s1) \<Rightarrow>
          if installed then (Inr True, print (check_mark @ '' Doxygen: '' @ status) s1)
          else
            let s2 = print (package @ '' Installing Doxygen...'') s1 in
            if pkg_mgr I = Some ''winget'' then
              run_command h ''winget install DimitriVanHeesch.Doxygen''
                ''Installing Doxygen via winget'' s2
            else if pkg_mgr I = Some ''choco'' then
              run_command h ''choco install doxygen.install''
                ''Installing Doxygen via chocolatey'' s2
            else if pkg_mgr I = Some ''apt'' then
              run_command h ''sudo apt install -y doxygen graphviz''
                ''Installing Doxygen via apt'' s2
            else if pkg_mgr I = Some ''dnf'' then
              run_command h ''sudo dnf install -y doxygen graphviz''
                ''Installing Doxygen via dnf'' s2
            else if pkg_mgr I = Some ''yum'' then
              run_command h ''sudo yum install -y doxygen graphviz''
                ''Installing Doxygen via yum'' s2
            else if pkg_mgr I = Some ''pacman'' then
              run_command h ''sudo pacman -S --noconfirm doxygen graphviz''
                ''Installing Doxygen via pacman'' s2
            else if pkg_mgr I = Some ''brew'' then
              run_command h ''brew install doxygen graphviz''
                ''Installing Doxygen via homebrew'' s2
            else
              (Inr False,
               print (cross_mark @ '' No supported package manager found for Doxygen installation'')
                 s2))"

section \<open>\<^verbatim>\<open>main\<close>\<close>

text \<open>
  \<open>main\<close> in three parts. The command line is already parsed: \<open>install_optional\<close> is
  \<^verbatim>\<open>args.install_optional\<close>.
  \<open>banner\<close> is the part up to the construction of the installer.
\<close>

definition banner :: "'w host \<Rightarrow> 'w run \<Rightarrow> ToolInstaller \<times> 'w run" where
  "banner h s =
     (let s1 = print (replicate 50 CHR ''='') (print (magnifier @ '' Development Environment Setup'') s);
          d = SystemDetector_init h (world s1);
          s2 = print (''Architecture: '' @ machine d) (print (''System: '' @ title (system d)) s1);
          s3 = (case get_package_manager h d (world s2) of
                  Some m \<Rightarrow>
                    (if m \<noteq> [] then
                       print (''Package Manager: '' @ the (get_package_manager h d (world s2))) s2
                     else print ''Package Manager: None detected'' s2)
                | None \<Rightarrow> print ''Package Manager: None detected'' s2);
          s4 = print (replicate 50 CHR ''-'')
                 (print ([CHR 0x0A] @ clipboard @ '' Checking and installing required tools...'') s3)
      in (ToolInstaller_init h d (world s4), s4))"

text \<open>\<^verbatim>\<open>if installer.install_x(): success_count += 1\<close>: one tool of the sequence, given the
  count so far and the rest of the sequence.\<close>

definition counted ::
  "(exn + bool) \<times> 'w run \<Rightarrow> nat \<Rightarrow> (nat \<Rightarrow> 'w run \<Rightarrow> (exn + 'a) \<times> 'w run) \<Rightarrow> (exn + 'a) \<times> 'w run"
where
  "counted r success_count rest =
     (case r of
        (Inl e, s') \<Rightarrow> (Inl e, s')
      | (Inr ok, s') \<Rightarrow> rest (if ok then success_count + 1 else success_count) s')"

text \<open>From \<^verbatim>\<open>success_count = 0\<close> to the end of the optional block: the two counters.\<close>

definition provision ::
  "'w host \<Rightarrow> ToolInstaller \<Rightarrow> bool \<Rightarrow> 'w run \<Rightarrow> (exn + nat \<times> nat) \<times> 'w run"
where
  "provision h I install_optional s =
     counted (install_cmake h I s) 0 (\<lambda>c1 s1.
     counted (install_compiler h I s1) c1 (\<lambda>c2 s2.
     counted (install_git h I s2) c2 (\<lambda>c3 s3.
     counted (install_coverage_tools h I s3) c3 (\<lambda>c4 s4.
       if install_optional then
         counted
           (install_doxygen h I
              (print (replicate 30 CHR ''-'')
                 (print ([CHR 0x0A] @ clipboard @ '' Installing optional tools...'') s4)))
           c4 (\<lambda>c5 s5. (Inr (c5, 4 + 1), s5))
       else (Inr (c4, 4), s4)))))"

text \<open>The summary and the final test of \<open>main\<close>.\<close>

definition report :: "nat \<Rightarrow> nat \<Rightarrow> 'w run \<Rightarrow> (exn + unit) \<times> 'w run" where
  "report success_count total_tools s =
     (let s1 = print (check_mark @ '' Setup complete: '' @ str_nat success_count @ ''/''
                      @ str_nat total_tools @ '' tools installed successfully'')
                 (print ([CHR 0x0A] @ replicate 50 CHR ''='') s)
      in if success_count = total_tools then
           (Inr (),
            print ''   cmake --build .''
              (print ''   cmake ..''
                 (print ''   mkdir build && cd build''
                    (print ([CHR 0x0A] @ party
                            @ '' All tools are ready! You can now build the project:'') s1))))
         else
           (Inl (SystemExit 1),
            print ''   Check the error messages above for details.''
              (print ([CHR 0x0A] @ warning_sign
                      @ ''  Some tools failed to install. Please install them manually.'') s1)))"

definition main :: "'w host \<Rightarrow> bool \<Rightarrow> 'w run \<Rightarrow> (exn + unit) \<times> 'w run" where
  "main h install_optional s =
     (case banner h s of
        (I, s1) \<Rightarrow>
          (case provision h I install_optional s1 of
             (Inl e, s2) \<Rightarrow> (Inl e, s2)
           | (Inr (success_count, total_tools), s2) \<Rightarrow> report success_count total_tools s2))"

text \<open>A fresh process on host \<open>w\<close>, and the exit status the interpreter gives the process:
  0 when \<open>main\<close> returns, the argument of \<^verbatim>\<open>sys.exit\<close>, and 1 after the traceback of an
  exception nothing caught.\<close>

definition start :: "'w \<Rightarrow> 'w run" where
  "start w = \<lparr>world = w, stdout = [], dispatched = []\<rparr>"

fun exit_status :: "exn + unit \<Rightarrow> int" where
  "exit_status (Inr u) = 0"
| "exit_status (Inl (SystemExit n)) = n"
| "exit_status (Inl SubprocessFailure) = 1"

section \<open>Vocabulary of the specification\<close>

text \<open>
  The specification speaks of an operating-system family, of a priority list of package
  managers per family, and of an install mapping from a tool and a package manager to a
  shell command. The script has three flags and chains of \<^verbatim>\<open>if\<close>/\<^verbatim>\<open>elif\<close> instead. The
  definitions of this section follow the specification's words (and, for the mappings, the
  commands of the chains, manager by manager); the theorems compare them with the script.
\<close>

datatype family = Windows | Linux | Macos | Unrecognized

definition os_family :: "SystemDetector \<Rightarrow> family" where
  "os_family d =
     (if is_windows d then Windows else if is_linux d then Linux
      else if is_macos d then Macos else Unrecognized)"

fun candidates :: "family \<Rightarrow> string list" where
  "candidates Windows = [''winget'', ''choco'', ''scoop'']"
| "candidates Linux = [''apt'', ''dnf'', ''yum'', ''pacman'']"
| "candidates Macos = [''brew'']"
| "candidates Unrecognized = []"

text \<open>What a shell invocation means for the caller of \<open>run_command\<close>: success on exit
  status zero, failure on any other, and the exception when there is no exit status.\<close>

fun outcome_of :: "proc \<Rightarrow> exn + bool" where
  "outcome_of (Completed rc err) = Inr (rc = 0)"
| "outcome_of Raised = Inl SubprocessFailure"

text \<open>Nothing was dispatched between two states of the run: the same host, the same list
  of commands.\<close>

definition quiet :: "'w run \<Rightarrow> 'w run \<Rightarrow> bool" where
  "quiet s s' = (world s' = world s \<and> dispatched s' = dispatched s)"

text \<open>No invocation on this host raises: every shell command returns an exit status.\<close>

definition returns_status :: "'w host \<Rightarrow> bool" where
  "returns_status h = (\<forall>w cmd. fst (shell h w cmd) \<noteq> Raised)"

text \<open>The install mapping: the command of a tool for the detected package manager, if any.\<close>

fun mapped :: "(string \<times> string) list \<Rightarrow> string option \<Rightarrow> string option" where
  "mapped table None = None"
| "mapped table (Some m) = map_of table m"

definition cmake_commands :: "(string \<times> string) list" where
  "cmake_commands =
     [(''winget'', ''winget install Kitware.CMake''),
      (''choco'', ''choco install cmake''),
      (''apt'', ''sudo apt update && sudo apt install -y cmake''),
      (''dnf'', ''sudo dnf install -y cmake''),
      (''yum'', ''sudo yum install -y cmake''),
      (''pacman'', ''sudo pacman -S --noconfirm cmake''),
      (''brew'', ''brew install cmake'')]"

text \<open>The compiler on a platform other than Windows.\<close>

definition compiler_commands :: "(string \<times> string) list" where
  "compiler_commands =
     [(''apt'', ''sudo apt install -y build-essential''),
      (''dnf'', ''sudo dnf groupinstall -y '' @ [CHR 0x27] @ ''Development Tools'' @ [CHR 0x27]),
      (''yum'', ''sudo yum groupinstall -y '' @ [CHR 0x27] @ ''Development Tools'' @ [CHR 0x27]),
      (''pacman'', ''sudo pacman -S --noconfirm base-devel''),
      (''brew'', ''xcode-select --install'')]"

definition git_commands :: "(string \<times> string) list" where
  "git_commands =
     [(''winget'', ''winget install Git.Git''),
      (''choco'', ''choco install git''),
      (''apt'', ''sudo apt install -y git''),
      (''dnf'', ''sudo dnf install -y git''),
      (''yum'', ''sudo yum install -y git''),
      (''pacman'', ''sudo pacman -S --noconfirm git''),
      (''brew'', ''brew install git'')]"

definition opencppcoverage_commands :: "(string \<times> string) list" where
  "opencppcoverage_commands = [(''choco'', ''choco install opencppcoverage'')]"

definition gcovr_commands :: "(string \<times> string) list" where
  "gcovr_commands =
     [(''apt'', ''sudo apt install -y gcovr''),
      (''dnf'', ''sudo dnf install -y gcovr''),
      (''yum'', ''sudo yum install -y gcovr''),
      (''pacman'', ''sudo pacman -S --noconfirm gcovr''),
      (''brew'', ''brew install gcovr'')]"

definition lcov_commands :: "(string \<times> string) list" where
  "lcov_commands =
     [(''apt'', ''sudo apt install -y lcov''),
      (''dnf'', ''sudo dnf install -y lcov''),
      (''yum'', ''sudo yum install -y lcov''),
      (''pacman'', ''sudo pacman -S --noconfirm lcov''),
      (''brew'', ''brew install lcov'')]"

definition doxygen_commands :: "(string \<times> string) list" where
  "doxygen_commands =
     [(''winget'', ''winget install DimitriVanHeesch.Doxygen''),
      (''choco'', ''choco install doxygen.install''),
      (''apt'', ''sudo apt install -y doxygen graphviz''),
      (''dnf'', ''sudo dnf install -y doxygen graphviz''),
      (''yum'', ''sudo yum install -y doxygen graphviz''),
      (''pacman'', ''sudo pacman -S --noconfirm doxygen graphviz''),
      (''brew'', ''brew install doxygen graphviz'')]"

text \<open>The tools a run attempts, in order, and the outcomes of those it reaches: an
  exception ends the list, a failure does not.\<close>

definition optional_header :: "'w run \<Rightarrow> 'w run" where
  "optional_header s =
     print (replicate 30 CHR ''-'')
       (print ([CHR 0x0A] @ clipboard @ '' Installing optional tools...'') s)"

definition tool_sequence ::
  "'w host \<Rightarrow> ToolInstaller \<Rightarrow> bool \<Rightarrow> ('w run \<Rightarrow> (exn + bool) \<times> 'w run) list"
where
  "tool_sequence h I install_optional =
     [install_cmake h I, install_compiler h I, install_git h I, install_coverage_tools h I]
     @ (if install_optional then [\<lambda>s. install_doxygen h I (optional_header s)] else [])"

fun attempts :: "('w run \<Rightarrow> (exn + bool) \<times> 'w run) list \<Rightarrow> 'w run \<Rightarrow> (exn + bool) list" where
  "attempts [] s = []"
| "attempts (f # fs) s =
     (case f s of (Inl e, s') \<Rightarrow> [Inl e] | (Inr ok, s') \<Rightarrow> Inr ok # attempts fs s')"

text \<open>The counting of \<open>provision\<close> as a loop over a list of tools: \<open>provision\<close> writes
  this loop out tool by tool.\<close>

fun tally ::
  "('w run \<Rightarrow> (exn + bool) \<times> 'w run) list \<Rightarrow> nat \<Rightarrow> 'w run \<Rightarrow> (exn + nat) \<times> 'w run"
where
  "tally [] success_count s = (Inr success_count, s)"
| "tally (f # fs) success_count s = counted (f s) success_count (tally fs)"

section \<open>Sample hosts\<close>

text \<open>Machines whose path is a list of names and whose shell answers every command the
  same way and leaves the machine as it was.\<close>

record machine_facts =
  uname_system :: string
  uname_machine :: string
  path :: "string list"

definition on_path :: "machine_facts \<Rightarrow> string \<Rightarrow> bool" where
  "on_path w name = (name \<in> set (path w))"

definition sample_host :: "(string \<Rightarrow> proc) \<Rightarrow> machine_facts host" where
  "sample_host answer =
     \<lparr>platform_system = uname_system, platform_machine = uname_machine,
      which = on_path, shell = (\<lambda>w cmd. (answer cmd, w))\<rparr>"

definition exits_zero :: "string \<Rightarrow> proc" where
  "exits_zero cmd = Completed 0 []"

definition exits_one :: "string \<Rightarrow> proc" where
  "exits_one cmd = Completed 1 ''E: Unable to locate package''"

definition raises :: "string \<Rightarrow> proc" where
  "raises cmd = Raised"

text \<open>The gcovr command fails, every other command succeeds.\<close>

definition gcovr_fails :: "string \<Rightarrow> proc" where
  "gcovr_fails cmd =
     (if cmd = ''sudo apt install -y gcovr'' then Completed 100 ''E: Unable to locate package gcovr''
      else Completed 0 [])"

definition linux_ready :: machine_facts where
  "linux_ready =
     \<lparr>uname_system = ''Linux'', uname_machine = ''x86_64'',
      path = [''apt'', ''cmake'', ''g++'', ''git'', ''gcovr'', ''lcov'', ''doxygen'']\<rparr>"

definition linux_apt_dnf :: machine_facts where
  "linux_apt_dnf = \<lparr>uname_system = ''Linux'', uname_machine = ''x86_64'', path = [''dnf'', ''apt'']\<rparr>"

definition linux_apt :: machine_facts where
  "linux_apt = \<lparr>uname_system = ''Linux'', uname_machine = ''x86_64'', path = [''apt'']\<rparr>"

definition linux_bare :: machine_facts where
  "linux_bare = \<lparr>uname_system = ''Linux'', uname_machine = ''x86_64'', path = []\<rparr>"

definition linux_no_doxygen :: machine_facts where
  "linux_no_doxygen =
     \<lparr>uname_system = ''Linux'', uname_machine = ''x86_64'',
      path = [''cmake'', ''g++'', ''git'', ''gcovr'', ''lcov'']\<rparr>"

definition windows_bare :: machine_facts where
  "windows_bare = \<lparr>uname_system = ''Windows'', uname_machine = ''AMD64'', path = []\<rparr>"

definition windows_ready :: machine_facts where
  "windows_ready =
     \<lparr>uname_system = ''Windows'', uname_machine = ''AMD64'',
      path = [''winget'', ''cmake'', ''cl'', ''git'', ''OpenCppCoverage'', ''doxygen'']\<rparr>"

definition freebsd_cl :: machine_facts where
  "freebsd_cl =
     \<lparr>uname_system = ''FreeBSD'', uname_machine = ''amd64'',
      path = [''cl'', ''OpenCppCoverage'', ''apt'']\<rparr>"

text \<open>The installer \<open>main\<close> builds on a machine.\<close>

definition installer_on :: "(string \<Rightarrow> proc) \<Rightarrow> machine_facts \<Rightarrow> ToolInstaller" where
  "installer_on answer w =
     ToolInstaller_init (sample_host answer) (SystemDetector_init (sample_host answer) w) w"

section \<open>Basic facts\<close>

lemma print_fields [simp]:
  "world (print l s) = world s"
  "dispatched (print l s) = dispatched s"
  "stdout (print l s) = stdout s @ [l]"
  by (simp_all add: print_def)

lemma quiet_same [simp]: "quiet s s"
  by (simp add: quiet_def)

lemma quiet_print [simp]: "quiet s (print l s') = quiet s s'"
  by (simp add: quiet_def)

lemma check_tool_no_minimum:
  "check_tool h name vc None s =
     ((which h (world s) name,
       if which h (world s) name then ''Installed'' else ''Not installed''), s)"
  by (simp add: check_tool_def)

lemma run_command_outcome:
  "fst (run_command h cmd d s) = outcome_of (fst (shell h (world s) cmd))"
  by (simp add: run_command_def subprocess_run_def split: prod.splits proc.splits)

lemma run_command_dispatched:
  "dispatched (snd (run_command h cmd d s)) = dispatched s @ [cmd]"
  by (simp add: run_command_def subprocess_run_def split: prod.splits proc.splits)

lemma run_command_world:
  "world (snd (run_command h cmd d s)) = snd (shell h (world s) cmd)"
  by (simp add: run_command_def subprocess_run_def split: prod.splits proc.splits)

lemma and_assign_fst:
  "fst (and_assign b r) = (case fst r of Inl e \<Rightarrow> Inl e | Inr ok \<Rightarrow> Inr (b \<and> ok))"
  by (simp add: and_assign_def split: prod.splits sum.splits)

lemma and_assign_snd: "snd (and_assign b r) = snd r"
  by (simp add: and_assign_def split: prod.splits sum.splits)

section \<open>Platform detection\<close>

text \<open>
  Claim C3. For every operating-system family and every host, the package manager the
  detection returns is the first name of the family's priority list (windows: winget,
  choco, scoop; linux: apt, dnf, yum, pacman; macos: brew) that is executable on the path,
  and none when no name of the list is; the result is one optional name, so at most one
  manager is selected however many are present.
\<close>

theorem get_package_manager_earliest:
  "get_package_manager h d w = find (which h w) (candidates (os_family d))"
  by (simp add: get_package_manager_def os_family_def)

text \<open>On linux with both \<^verbatim>\<open>apt\<close> and \<^verbatim>\<open>dnf\<close> on the path, \<^verbatim>\<open>apt\<close> is chosen.\<close>

lemma apt_before_dnf:
  "get_package_manager (sample_host exits_zero)
     (SystemDetector_init (sample_host exits_zero) linux_apt_dnf) linux_apt_dnf = Some ''apt''"
  by code_simp

text \<open>
  Claim C9. For every value of the system identification string, the detector built from
  it belongs to exactly one family: windows, linux or macos when the lower-cased string is
  \<^verbatim>\<open>windows\<close>, \<^verbatim>\<open>linux\<close> or \<^verbatim>\<open>darwin\<close>, and unrecognized otherwise; each flag of the
  detector is set exactly for its family, so no two flags are set together. On every host
  the detected package manager is none or a member of the family's candidate list, and an
  unrecognized family yields none. \<open>SystemDetector_init\<close> and \<open>get_package_manager\<close> have
  no error result: the script raises nowhere in them.
\<close>

theorem detect_family:
  assumes "d = SystemDetector_init h w"
  shows "(os_family d = Windows \<longleftrightarrow> lower (platform_system h w) = ''windows'')
       \<and> (os_family d = Linux \<longleftrightarrow> lower (platform_system h w) = ''linux'')
       \<and> (os_family d = Macos \<longleftrightarrow> lower (platform_system h w) = ''darwin'')
       \<and> (os_family d = Unrecognized \<longleftrightarrow>
            lower (platform_system h w) \<notin> {''windows'', ''linux'', ''darwin''})
       \<and> (is_windows d \<longleftrightarrow> os_family d = Windows)
       \<and> (is_linux d \<longleftrightarrow> os_family d = Linux)
       \<and> (is_macos d \<longleftrightarrow> os_family d = Macos)
       \<and> (get_package_manager h d w' = None
            \<or> (\<exists>m \<in> set (candidates (os_family d)). get_package_manager h d w' = Some m))
       \<and> (os_family d = Unrecognized \<longrightarrow> get_package_manager h d w' = None)"
  unfolding assms
  by (auto simp add: SystemDetector_init_def os_family_def get_package_manager_def Let_def)


theorem detect_family_witness:
  "os_family (SystemDetector_init (sample_host exits_zero) freebsd_cl) = Unrecognized
   \<and> get_package_manager (sample_host exits_zero)
        (SystemDetector_init (sample_host exits_zero) freebsd_cl) freebsd_cl = None
   \<and> os_family (SystemDetector_init (sample_host exits_zero) linux_apt_dnf) = Linux
   \<and> get_package_manager (sample_host exits_zero)
        (SystemDetector_init (sample_host exits_zero) linux_apt_dnf) linux_apt_dnf = Some ''apt''"
proof -
  let ?h = "sample_host exits_zero"
  have bsd: "lower (platform_system ?h freebsd_cl) \<notin> {''windows'', ''linux'', ''darwin''}"
    by code_simp
  have lin: "lower (platform_system ?h linux_apt_dnf) = ''linux''"
    by code_simp
  have apt: "get_package_manager ?h (SystemDetector_init ?h linux_apt_dnf) linux_apt_dnf
             = Some ''apt''"
    by code_simp
  from detect_family [where h = ?h and w = freebsd_cl and w' = freebsd_cl, OF refl] bsd
  have "os_family (SystemDetector_init ?h freebsd_cl) = Unrecognized
        \<and> get_package_manager ?h (SystemDetector_init ?h freebsd_cl) freebsd_cl = None"
    by blast
  moreover
  from detect_family [where h = ?h and w = linux_apt_dnf and w' = linux_apt_dnf, OF refl] lin
  have "os_family (SystemDetector_init ?h linux_apt_dnf) = Linux"
    by blast
  ultimately show ?thesis using apt by blast
qed

section \<open>The presence check\<close>

text \<open>
  Claim C1, as the script has it. For every tool whose executable is found on the path:
  without a minimum version, which is how \<open>install_cmake\<close>, \<open>install_git\<close> and
  \<open>install_doxygen\<close> call the check, the version command is not invoked, nothing changes
  and the tool is reported as installed; the same holds whenever the version command or the
  minimum version is missing or empty. When both are given the version command is invoked:
  any exit status, zero or not, reports the tool as installed, and an exception of the
  invocation reports \<^verbatim>\<open>(False, "Version check failed")\<close>.
\<close>

theorem check_tool_present:
  assumes "which h (world s) name"
  shows "check_tool h name vc None s = ((True, ''Installed''), s)
       \<and> (\<not> (truthy vc \<and> truthy mv) \<longrightarrow> check_tool h name vc mv s = ((True, ''Installed''), s))
       \<and> (truthy vc \<and> truthy mv \<longrightarrow>
            dispatched (snd (check_tool h name vc mv s)) = dispatched s @ [the vc]
            \<and> fst (check_tool h name vc mv s) =
                (case fst (shell h (world s) (the vc)) of
                   Completed rc err \<Rightarrow> (True, ''Installed'')
                 | Raised \<Rightarrow> (False, ''Version check failed'')))"
  using assms
  by (auto simp add: check_tool_def subprocess_run_def split: prod.splits proc.splits)

theorem check_tool_present_witness:
  "which (sample_host raises) (world (start linux_ready)) ''cmake''
   \<and> check_tool (sample_host raises) ''cmake'' (Some ''cmake --version'') None (start linux_ready)
       = ((True, ''Installed''), start linux_ready)
   \<and> fst (check_tool (sample_host exits_one) ''cmake'' (Some ''cmake --version'') (Some ''3.22'')
            (start linux_ready)) = (True, ''Installed'')"
proof -
  have a: "which (sample_host raises) (world (start linux_ready)) ''cmake''"
    by code_simp
  have b: "which (sample_host exits_one) (world (start linux_ready)) ''cmake''"
    by code_simp
  have c: "truthy (Some ''cmake --version'') \<and> truthy (Some ''3.22'')"
    by simp
  have d: "fst (shell (sample_host exits_one) (world (start linux_ready)) ''cmake --version'')
           = Completed 1 ''E: Unable to locate package''"
    by (simp add: sample_host_def exits_one_def)
  from check_tool_present [OF b, where vc = "Some ''cmake --version''" and mv = "Some ''3.22''"] c d
  have "fst (check_tool (sample_host exits_one) ''cmake'' (Some ''cmake --version'')
               (Some ''3.22'') (start linux_ready)) = (True, ''Installed'')"
    by simp
  with a check_tool_present [OF a, where vc = "Some ''cmake --version''"]
  show ?thesis by blast
qed

text \<open>
  The claim as first stated says that the version command of cmake is invoked and that an
  exception of the invocation still reports the tool as installed. On a machine with cmake
  on the path, \<open>install_cmake\<close> dispatches no command at all; and when the check is given
  a minimum version and the invocation raises, it reports the tool as not installed.
\<close>

theorem version_check_counterexample:
  "which (sample_host exits_zero) (world (start linux_ready)) ''cmake''
   \<and> dispatched (snd (install_cmake (sample_host exits_zero) (installer_on exits_zero linux_ready)
                        (start linux_ready))) = []
   \<and> which (sample_host raises) (world (start linux_ready)) ''cmake''
   \<and> fst (check_tool (sample_host raises) ''cmake'' (Some ''cmake --version'') (Some ''3.22'')
            (start linux_ready)) = (False, ''Version check failed'')"
  by code_simp


section \<open>Installers, case by case\<close>

lemma install_cmake_present:
  "which h (world s) ''cmake'' \<Longrightarrow>
   install_cmake h I s = (Inr True, print (check_mark @ '' CMake: Installed'') s)"
  by (simp add: install_cmake_def check_tool_no_minimum)

lemma install_git_present:
  "which h (world s) ''git'' \<Longrightarrow>
   install_git h I s = (Inr True, print (check_mark @ '' Git: Installed'') s)"
  by (simp add: install_git_def check_tool_no_minimum)

lemma install_doxygen_present:
  "which h (world s) ''doxygen'' \<Longrightarrow>
   install_doxygen h I s = (Inr True, print (check_mark @ '' Doxygen: Installed'') s)"
  by (simp add: install_doxygen_def check_tool_no_minimum)

lemma install_cmake_mapped:
  assumes "\<not> which h (world s) ''cmake''" "mapped cmake_commands (pkg_mgr I) = Some c"
  shows "fst (install_cmake h I s) = outcome_of (fst (shell h (world s) c))
       \<and> dispatched (snd (install_cmake h I s)) = dispatched s @ [c]"
  using assms
  by (cases "pkg_mgr I")
     (simp_all add: install_cmake_def check_tool_no_minimum cmake_commands_def
        run_command_outcome run_command_dispatched split: if_splits)

lemma install_git_mapped:
  assumes "\<not> which h (world s) ''git''" "mapped git_commands (pkg_mgr I) = Some c"
  shows "fst (install_git h I s) = outcome_of (fst (shell h (world s) c))
       \<and> dispatched (snd (install_git h I s)) = dispatched s @ [c]"
  using assms
  by (cases "pkg_mgr I")
     (simp_all add: install_git_def check_tool_no_minimum git_commands_def
        run_command_outcome run_command_dispatched split: if_splits)

lemma install_doxygen_mapped:
  assumes "\<not> which h (world s) ''doxygen''" "mapped doxygen_commands (pkg_mgr I) = Some c"
  shows "fst (install_doxygen h I s) = outcome_of (fst (shell h (world s) c))
       \<and> dispatched (snd (install_doxygen h I s)) = dispatched s @ [c]"
  using assms
  by (cases "pkg_mgr I")
     (simp_all add: install_doxygen_def check_tool_no_minimum doxygen_commands_def
        run_command_outcome run_command_dispatched split: if_splits)

lemma install_cmake_unmapped:
  assumes "\<not> which h (world s) ''cmake''" "mapped cmake_commands (pkg_mgr I) = None"
  shows "install_cmake h I s =
           (Inr False,
            print ''Please install CMake manually from: https://cmake.org/download/''
              (print (cross_mark @ '' No supported package manager found for CMake installation'')
                 (print (package @ '' Installing CMake...'') s)))"
  using assms
  by (cases "pkg_mgr I")
     (simp_all add: install_cmake_def check_tool_no_minimum cmake_commands_def split: if_splits)

lemma install_git_unmapped:
  assumes "\<not> which h (world s) ''git''" "mapped git_commands (pkg_mgr I) = None"
  shows "install_git h I s =
           (Inr False,
            print (cross_mark @ '' No supported package manager found for Git installation'') s)"
  using assms
  by (cases "pkg_mgr I")
     (simp_all add: install_git_def check_tool_no_minimum git_commands_def split: if_splits)

lemma install_doxygen_unmapped:
  assumes "\<not> which h (world s) ''doxygen''" "mapped doxygen_commands (pkg_mgr I) = None"
  shows "install_doxygen h I s =
           (Inr False,
            print (cross_mark @ '' No supported package manager found for Doxygen installation'')
              (print (package @ '' Installing Doxygen...'') s))"
  using assms
  by (cases "pkg_mgr I")
     (simp_all add: install_doxygen_def check_tool_no_minimum doxygen_commands_def
        split: if_splits)

lemma compiler_found:
  "(find (which h (world s)) (compilers I) \<noteq> None) = (\<exists>c \<in> set (compilers I). which h (world s) c)"
  by (auto simp add: find_None_iff)

lemma install_compiler_present:
  "find (which h (world s)) (compilers I) = Some c \<Longrightarrow>
   install_compiler h I s =
     (Inr True, print (check_mark @ '' C++ Compiler: '' @ c @ '' installed'') s)"
  by (simp add: install_compiler_def)

lemma install_compiler_windows:
  assumes "find (which h (world s)) (compilers I) = None" "is_windows (detector I)"
  shows "install_compiler h I s =
           (Inr True,
            print ''  - Clang/LLVM''
              (print ''  - MinGW-w64''
                 (print ''  - Visual Studio Build Tools''
                    (print ''  - Visual Studio 2019/2022 with C++ workload''
                       (print ''Please ensure one of the following is installed:''
                          (print ''----- Installing C++ compiler -----'' s))))))"
  using assms by (simp add: install_compiler_def)

lemma install_compiler_mapped:
  assumes "find (which h (world s)) (compilers I) = None" "\<not> is_windows (detector I)"
    "mapped compiler_commands (pkg_mgr I) = Some c"
  shows "fst (install_compiler h I s) = outcome_of (fst (shell h (world s) c))
       \<and> dispatched (snd (install_compiler h I s)) = dispatched s @ [c]"
  using assms
  by (cases "pkg_mgr I")
     (simp_all add: install_compiler_def compiler_commands_def
        run_command_outcome run_command_dispatched split: if_splits)

lemma install_compiler_unmapped:
  assumes "find (which h (world s)) (compilers I) = None" "\<not> is_windows (detector I)"
    "mapped compiler_commands (pkg_mgr I) = None"
  shows "install_compiler h I s =
           (Inr False,
            print (cross_mark @ '' No supported package manager found for compiler installation'')
              (print ''----- Installing C++ compiler -----'' s))"
  using assms
  by (cases "pkg_mgr I")
     (simp_all add: install_compiler_def compiler_commands_def split: if_splits)

lemma coverage_windows_present:
  assumes "is_windows (detector I)" "which h (world s) ''OpenCppCoverage''"
  shows "install_coverage_tools h I s =
           (Inr True, print (check_mark @ '' OpenCppCoverage: Installed'') s)"
  using assms by (simp add: install_coverage_tools_def)

lemma coverage_windows_mapped:
  assumes "is_windows (detector I)" "\<not> which h (world s) ''OpenCppCoverage''"
    "mapped opencppcoverage_commands (pkg_mgr I) = Some c"
  shows "fst (install_coverage_tools h I s) = outcome_of (fst (shell h (world s) c))
       \<and> dispatched (snd (install_coverage_tools h I s)) = dispatched s @ [c]"
  using assms
  by (cases "pkg_mgr I")
     (simp_all add: install_coverage_tools_def opencppcoverage_commands_def
        run_command_outcome run_command_dispatched split: if_splits)

lemma coverage_windows_unmapped:
  assumes "is_windows (detector I)" "\<not> which h (world s) ''OpenCppCoverage''"
    "mapped opencppcoverage_commands (pkg_mgr I) = None"
  shows "install_coverage_tools h I s =
           (Inr False,
            print ''https://github.com/OpenCppCoverage/OpenCppCoverage/releases''
              (print (cross_mark @ '' Please install OpenCppCoverage manually from:'') s))"
  using assms
  by (cases "pkg_mgr I")
     (simp_all add: install_coverage_tools_def opencppcoverage_commands_def split: if_splits)

lemma coverage_both_present:
  assumes "\<not> is_windows (detector I)" "which h (world s) ''gcovr''" "which h (world s) ''lcov''"
  shows "install_coverage_tools h I s =
           (Inr True,
            print (check_mark @ '' lcov: Installed'') (print (check_mark @ '' gcovr: Installed'') s))"
  using assms by (simp add: install_coverage_tools_def)

lemma coverage_gcovr_present:
  "coverage_gcovr h I True ok s = (Inr ok, print (check_mark @ '' gcovr: Already installed'') s)"
  by (simp add: coverage_gcovr_def)

lemma coverage_lcov_present:
  "coverage_lcov h I True ok s = (Inr ok, print (check_mark @ '' lcov: Already installed'') s)"
  by (simp add: coverage_lcov_def)

lemma coverage_gcovr_mapped:
  assumes "mapped gcovr_commands (pkg_mgr I) = Some c"
  shows "fst (coverage_gcovr h I False ok s) =
           (case outcome_of (fst (shell h (world s) c)) of
              Inl e \<Rightarrow> Inl e | Inr b \<Rightarrow> Inr (ok \<and> b))
       \<and> dispatched (snd (coverage_gcovr h I False ok s)) = dispatched s @ [c]
       \<and> world (snd (coverage_gcovr h I False ok s)) = snd (shell h (world s) c)"
  using assms
  by (cases "pkg_mgr I")
     (simp_all add: coverage_gcovr_def gcovr_commands_def and_assign_fst and_assign_snd
        run_command_outcome run_command_dispatched run_command_world split: if_splits)

lemma coverage_lcov_mapped:
  assumes "mapped lcov_commands (pkg_mgr I) = Some c"
  shows "fst (coverage_lcov h I False ok s) =
           (case outcome_of (fst (shell h (world s) c)) of
              Inl e \<Rightarrow> Inl e | Inr b \<Rightarrow> Inr (ok \<and> b))
       \<and> dispatched (snd (coverage_lcov h I False ok s)) = dispatched s @ [c]
       \<and> world (snd (coverage_lcov h I False ok s)) = snd (shell h (world s) c)"
  using assms
  by (cases "pkg_mgr I")
     (simp_all add: coverage_lcov_def lcov_commands_def and_assign_fst and_assign_snd
        run_command_outcome run_command_dispatched run_command_world split: if_splits)

lemma coverage_gcovr_unmapped:
  assumes "mapped gcovr_commands (pkg_mgr I) = None"
  shows "coverage_gcovr h I False ok s =
           (Inr False,
            print (cross_mark @ '' gcovr not available via package manager. Please install manually.'')
              s)"
  using assms
  by (cases "pkg_mgr I")
     (simp_all add: coverage_gcovr_def gcovr_commands_def split: if_splits)

lemma coverage_lcov_unmapped:
  assumes "mapped lcov_commands (pkg_mgr I) = None"
  shows "coverage_lcov h I False ok s =
           (Inr False,
            print (cross_mark @ '' lcov not available via package manager. Please install manually.'')
              s)"
  using assms
  by (cases "pkg_mgr I")
     (simp_all add: coverage_lcov_def lcov_commands_def split: if_splits)

lemma same_managers:
  "(mapped gcovr_commands pm = None) = (mapped lcov_commands pm = None)"
  by (cases pm) (simp_all add: gcovr_commands_def lcov_commands_def)

lemma coverage_posix:
  assumes "\<not> is_windows (detector I)"
    "\<not> (which h (world s) ''gcovr'' \<and> which h (world s) ''lcov'')"
  shows "install_coverage_tools h I s =
           (case coverage_gcovr h I (which h (world s) ''gcovr'') True s of
              (Inl e, s1) \<Rightarrow> (Inl e, s1)
            | (Inr ok, s1) \<Rightarrow> coverage_lcov h I (which h (world s) ''lcov'') ok s1)"
  using assms by (auto simp add: install_coverage_tools_def Let_def)


section \<open>Tools that are present\<close>

text \<open>
  Claim C6. For every tool, if its executable is found on the path, the installer returns
  success and dispatches no shell command: the host and the list of dispatched commands
  are as before (a status line is printed). The tool is cmake, git or doxygen; any name of
  the compiler candidate list; OpenCppCoverage on Windows; gcovr together with lcov
  elsewhere. When only one of gcovr and lcov is found, its own block dispatches nothing and
  leaves the success flag as it was.
\<close>

theorem present_tool_no_command:
  "(which h (world s) ''cmake'' \<longrightarrow>
      fst (install_cmake h I s) = Inr True \<and> quiet s (snd (install_cmake h I s)))
   \<and> (which h (world s) ''git'' \<longrightarrow>
      fst (install_git h I s) = Inr True \<and> quiet s (snd (install_git h I s)))
   \<and> (which h (world s) ''doxygen'' \<longrightarrow>
      fst (install_doxygen h I s) = Inr True \<and> quiet s (snd (install_doxygen h I s)))
   \<and> ((\<exists>c \<in> set (compilers I). which h (world s) c) \<longrightarrow>
      fst (install_compiler h I s) = Inr True \<and> quiet s (snd (install_compiler h I s)))
   \<and> (is_windows (detector I) \<and> which h (world s) ''OpenCppCoverage'' \<longrightarrow>
      fst (install_coverage_tools h I s) = Inr True
      \<and> quiet s (snd (install_coverage_tools h I s)))
   \<and> (\<not> is_windows (detector I) \<and> which h (world s) ''gcovr'' \<and> which h (world s) ''lcov'' \<longrightarrow>
      fst (install_coverage_tools h I s) = Inr True
      \<and> quiet s (snd (install_coverage_tools h I s)))
   \<and> fst (coverage_gcovr h I True ok s) = Inr ok \<and> quiet s (snd (coverage_gcovr h I True ok s))
   \<and> fst (coverage_lcov h I True ok s) = Inr ok \<and> quiet s (snd (coverage_lcov h I True ok s))"
proof -
  have compiler: "fst (install_compiler h I s) = Inr True \<and> quiet s (snd (install_compiler h I s))"
    if "\<exists>c \<in> set (compilers I). which h (world s) c"
  proof -
    from that obtain c where "find (which h (world s)) (compilers I) = Some c"
      using compiler_found [of h s I] by auto
    then show ?thesis by (simp add: install_compiler_present)
  qed
  show ?thesis
    using compiler
    by (simp add: install_cmake_present install_git_present install_doxygen_present
          coverage_windows_present coverage_both_present coverage_gcovr_present
          coverage_lcov_present)
qed

theorem present_tool_no_command_witness:
  "which (sample_host raises) (world (start linux_ready)) ''cmake''
   \<and> which (sample_host raises) (world (start linux_ready)) ''git''
   \<and> which (sample_host raises) (world (start linux_ready)) ''doxygen''
   \<and> (\<exists>c \<in> set (compilers (installer_on raises linux_ready)).
         which (sample_host raises) (world (start linux_ready)) c)
   \<and> \<not> is_windows (detector (installer_on raises linux_ready))
   \<and> which (sample_host raises) (world (start linux_ready)) ''gcovr''
   \<and> which (sample_host raises) (world (start linux_ready)) ''lcov''
   \<and> is_windows (detector (installer_on raises windows_ready))
   \<and> which (sample_host raises) (world (start windows_ready)) ''OpenCppCoverage''
   \<and> fst (install_cmake (sample_host raises) (installer_on raises linux_ready)
            (start linux_ready)) = Inr True
   \<and> fst (install_git (sample_host raises) (installer_on raises linux_ready)
            (start linux_ready)) = Inr True
   \<and> fst (install_doxygen (sample_host raises) (installer_on raises linux_ready)
            (start linux_ready)) = Inr True
   \<and> fst (install_compiler (sample_host raises) (installer_on raises linux_ready)
            (start linux_ready)) = Inr True
   \<and> fst (install_coverage_tools (sample_host raises) (installer_on raises linux_ready)
            (start linux_ready)) = Inr True
   \<and> quiet (start windows_ready)
        (snd (install_coverage_tools (sample_host raises) (installer_on raises windows_ready)
                (start windows_ready)))"
proof -
  let ?h = "sample_host raises"
  let ?L = "installer_on raises linux_ready"
  let ?W = "installer_on raises windows_ready"
  have l: "which ?h (world (start linux_ready)) ''cmake''"
      "which ?h (world (start linux_ready)) ''git''"
      "which ?h (world (start linux_ready)) ''doxygen''"
      "\<exists>c \<in> set (compilers ?L). which ?h (world (start linux_ready)) c"
      "\<not> is_windows (detector ?L)"
      "which ?h (world (start linux_ready)) ''gcovr''"
      "which ?h (world (start linux_ready)) ''lcov''"
    by code_simp+
  have w: "is_windows (detector ?W)"
      "which ?h (world (start windows_ready)) ''OpenCppCoverage''"
    by code_simp+
  from l w present_tool_no_command [of ?h "start linux_ready" ?L]
    present_tool_no_command [of ?h "start windows_ready" ?W]
  show ?thesis by blast
qed


section \<open>Tools that are absent\<close>

text \<open>
  Claim C7, as the script has it. For every tool but the compiler on Windows: if the tool
  is absent and no install mapping exists for the tool and the detected package manager
  (in particular when no package manager was detected, as on an unrecognized system), the
  installer returns failure, prints its message and dispatches no shell command. The
  messages are the ones listed; those of cmake, OpenCppCoverage, gcovr and lcov ask for a
  manual installation. The compiler on Windows, for which no manager has a mapping, is
  answered by a list of suggestions and success, again without a command.
\<close>

theorem absent_unmapped_no_command:
  "(\<not> which h (world s) ''cmake'' \<and> mapped cmake_commands (pkg_mgr I) = None \<longrightarrow>
      fst (install_cmake h I s) = Inr False \<and> quiet s (snd (install_cmake h I s))
      \<and> stdout (snd (install_cmake h I s)) = stdout s @
           [package @ '' Installing CMake...'',
            cross_mark @ '' No supported package manager found for CMake installation'',
            ''Please install CMake manually from: https://cmake.org/download/''])
   \<and> (\<not> which h (world s) ''git'' \<and> mapped git_commands (pkg_mgr I) = None \<longrightarrow>
      fst (install_git h I s) = Inr False \<and> quiet s (snd (install_git h I s))
      \<and> stdout (snd (install_git h I s)) = stdout s @
           [cross_mark @ '' No supported package manager found for Git installation''])
   \<and> (\<not> which h (world s) ''doxygen'' \<and> mapped doxygen_commands (pkg_mgr I) = None \<longrightarrow>
      fst (install_doxygen h I s) = Inr False \<and> quiet s (snd (install_doxygen h I s))
      \<and> stdout (snd (install_doxygen h I s)) = stdout s @
           [package @ '' Installing Doxygen...'',
            cross_mark @ '' No supported package manager found for Doxygen installation''])
   \<and> ((\<forall>c \<in> set (compilers I). \<not> which h (world s) c) \<and> \<not> is_windows (detector I)
        \<and> mapped compiler_commands (pkg_mgr I) = None \<longrightarrow>
      fst (install_compiler h I s) = Inr False \<and> quiet s (snd (install_compiler h I s))
      \<and> stdout (snd (install_compiler h I s)) = stdout s @
           [''----- Installing C++ compiler -----'',
            cross_mark @ '' No supported package manager found for compiler installation''])
   \<and> ((\<forall>c \<in> set (compilers I). \<not> which h (world s) c) \<and> is_windows (detector I) \<longrightarrow>
      fst (install_compiler h I s) = Inr True \<and> quiet s (snd (install_compiler h I s)))
   \<and> (is_windows (detector I) \<and> \<not> which h (world s) ''OpenCppCoverage''
        \<and> mapped opencppcoverage_commands (pkg_mgr I) = None \<longrightarrow>
      fst (install_coverage_tools h I s) = Inr False
      \<and> quiet s (snd (install_coverage_tools h I s))
      \<and> stdout (snd (install_coverage_tools h I s)) = stdout s @
           [cross_mark @ '' Please install OpenCppCoverage manually from:'',
            ''https://github.com/OpenCppCoverage/OpenCppCoverage/releases''])
   \<and> (\<not> is_windows (detector I)
        \<and> \<not> (which h (world s) ''gcovr'' \<and> which h (world s) ''lcov'')
        \<and> mapped gcovr_commands (pkg_mgr I) = None \<and> mapped lcov_commands (pkg_mgr I) = None \<longrightarrow>
      fst (install_coverage_tools h I s) = Inr False
      \<and> quiet s (snd (install_coverage_tools h I s))
      \<and> stdout (snd (install_coverage_tools h I s)) = stdout s @
           [if which h (world s) ''gcovr'' then check_mark @ '' gcovr: Already installed''
            else cross_mark @ '' gcovr not available via package manager. Please install manually.'',
            if which h (world s) ''lcov'' then check_mark @ '' lcov: Already installed''
            else cross_mark @ '' lcov not available via package manager. Please install manually.''])"
proof -
  have none: "find (which h (world s)) (compilers I) = None"
    if "\<forall>c \<in> set (compilers I). \<not> which h (world s) c"
    using that by (simp add: find_None_iff)
  have coverage:
    "install_coverage_tools h I s =
       (Inr False,
        print (if which h (world s) ''lcov'' then check_mark @ '' lcov: Already installed''
               else cross_mark @ '' lcov not available via package manager. Please install manually.'')
          (print (if which h (world s) ''gcovr'' then check_mark @ '' gcovr: Already installed''
                  else cross_mark
                       @ '' gcovr not available via package manager. Please install manually.'') s))"
    if "\<not> is_windows (detector I)"
      "\<not> (which h (world s) ''gcovr'' \<and> which h (world s) ''lcov'')"
      "mapped gcovr_commands (pkg_mgr I) = None" "mapped lcov_commands (pkg_mgr I) = None"
    using that
    by (cases "which h (world s) ''gcovr''"; cases "which h (world s) ''lcov''")
       (simp_all add: coverage_posix coverage_gcovr_present coverage_lcov_present
          coverage_gcovr_unmapped coverage_lcov_unmapped)
  show ?thesis
    using none coverage
    by (simp add: install_cmake_unmapped install_git_unmapped install_doxygen_unmapped
          install_compiler_unmapped install_compiler_windows coverage_windows_unmapped)
qed


theorem absent_unmapped_no_command_witness:
  "\<not> which (sample_host raises) (world (start linux_bare)) ''cmake''
   \<and> mapped cmake_commands (pkg_mgr (installer_on raises linux_bare)) = None
   \<and> fst (install_cmake (sample_host raises) (installer_on raises linux_bare) (start linux_bare))
       = Inr False
   \<and> fst (install_git (sample_host raises) (installer_on raises linux_bare) (start linux_bare))
       = Inr False
   \<and> fst (install_doxygen (sample_host raises) (installer_on raises linux_bare) (start linux_bare))
       = Inr False
   \<and> fst (install_compiler (sample_host raises) (installer_on raises linux_bare) (start linux_bare))
       = Inr False
   \<and> fst (install_coverage_tools (sample_host raises) (installer_on raises linux_bare)
            (start linux_bare)) = Inr False
   \<and> quiet (start linux_bare)
        (snd (install_coverage_tools (sample_host raises) (installer_on raises linux_bare)
                (start linux_bare)))
   \<and> fst (install_compiler (sample_host raises) (installer_on raises windows_bare)
            (start windows_bare)) = Inr True
   \<and> fst (install_coverage_tools (sample_host raises) (installer_on raises windows_bare)
            (start windows_bare)) = Inr False"
proof -
  let ?h = "sample_host raises"
  let ?L = "installer_on raises linux_bare"
  let ?W = "installer_on raises windows_bare"
  have l: "\<not> which ?h (world (start linux_bare)) ''cmake''"
      "\<not> which ?h (world (start linux_bare)) ''git''"
      "\<not> which ?h (world (start linux_bare)) ''doxygen''"
      "\<forall>c \<in> set (compilers ?L). \<not> which ?h (world (start linux_bare)) c"
      "\<not> is_windows (detector ?L)"
      "\<not> (which ?h (world (start linux_bare)) ''gcovr''
          \<and> which ?h (world (start linux_bare)) ''lcov'')"
    by code_simp+
  have lm: "mapped cmake_commands (pkg_mgr ?L) = None" "mapped git_commands (pkg_mgr ?L) = None"
      "mapped doxygen_commands (pkg_mgr ?L) = None" "mapped compiler_commands (pkg_mgr ?L) = None"
      "mapped gcovr_commands (pkg_mgr ?L) = None" "mapped lcov_commands (pkg_mgr ?L) = None"
    by code_simp+
  have w: "\<forall>c \<in> set (compilers ?W). \<not> which ?h (world (start windows_bare)) c"
      "is_windows (detector ?W)"
      "\<not> which ?h (world (start windows_bare)) ''OpenCppCoverage''"
      "mapped opencppcoverage_commands (pkg_mgr ?W) = None"
    by code_simp+
  from l lm absent_unmapped_no_command [of ?h "start linux_bare" ?L]
  have "fst (install_cmake ?h ?L (start linux_bare)) = Inr False
      \<and> fst (install_git ?h ?L (start linux_bare)) = Inr False
      \<and> fst (install_doxygen ?h ?L (start linux_bare)) = Inr False
      \<and> fst (install_compiler ?h ?L (start linux_bare)) = Inr False
      \<and> fst (install_coverage_tools ?h ?L (start linux_bare)) = Inr False
      \<and> quiet (start linux_bare) (snd (install_coverage_tools ?h ?L (start linux_bare)))"
    by blast
  moreover
  from w absent_unmapped_no_command [of ?h "start windows_bare" ?W]
  have "fst (install_compiler ?h ?W (start windows_bare)) = Inr True
      \<and> fst (install_coverage_tools ?h ?W (start windows_bare)) = Inr False"
    by blast
  ultimately show ?thesis using l(1) lm(1) by blast
qed

text \<open>
  The claim as first stated covers every tool. On a Windows machine with no compiler and
  no package manager, the compiler has no install mapping and yet \<open>install_compiler\<close>
  returns success.
\<close>

theorem windows_compiler_counterexample:
  "is_windows (detector (installer_on exits_one windows_bare))
   \<and> find (which (sample_host exits_one) (world (start windows_bare)))
        (compilers (installer_on exits_one windows_bare)) = None
   \<and> pkg_mgr (installer_on exits_one windows_bare) = None
   \<and> fst (install_compiler (sample_host exits_one) (installer_on exits_one windows_bare)
            (start windows_bare)) = Inr True"
  by code_simp

section \<open>The compiler\<close>

text \<open>
  Claim C5, as the script has it. The compiler check succeeds without a command if any
  name of the candidate list (g++, clang++, and cl as well on Windows) is found on the
  path. When all are absent: on Windows six lines of advice are printed and the outcome is
  success; elsewhere, with a package manager that has a mapping, exactly that install
  command is dispatched and its result is the outcome (success on exit status zero,
  failure on any other, the exception if the invocation raised); elsewhere without such a
  package manager, no command is dispatched and the outcome is failure.
\<close>

theorem compiler_check:
  "compilers I =
     (if is_windows (detector I) then [''g++'', ''clang++'', ''cl''] else [''g++'', ''clang++''])
   \<and> ((\<exists>c \<in> set (compilers I). which h (world s) c) \<longrightarrow>
      fst (install_compiler h I s) = Inr True \<and> quiet s (snd (install_compiler h I s)))
   \<and> ((\<forall>c \<in> set (compilers I). \<not> which h (world s) c) \<and> is_windows (detector I) \<longrightarrow>
      fst (install_compiler h I s) = Inr True \<and> quiet s (snd (install_compiler h I s))
      \<and> stdout (snd (install_compiler h I s)) = stdout s @
           [''----- Installing C++ compiler -----'',
            ''Please ensure one of the following is installed:'',
            ''  - Visual Studio 2019/2022 with C++ workload'',
            ''  - Visual Studio Build Tools'',
            ''  - MinGW-w64'',
            ''  - Clang/LLVM''])
   \<and> ((\<forall>c \<in> set (compilers I). \<not> which h (world s) c) \<and> \<not> is_windows (detector I)
        \<and> mapped compiler_commands (pkg_mgr I) = Some cmd \<longrightarrow>
      dispatched (snd (install_compiler h I s)) = dispatched s @ [cmd]
      \<and> fst (install_compiler h I s) = outcome_of (fst (shell h (world s) cmd)))
   \<and> ((\<forall>c \<in> set (compilers I). \<not> which h (world s) c) \<and> \<not> is_windows (detector I)
        \<and> mapped compiler_commands (pkg_mgr I) = None \<longrightarrow>
      fst (install_compiler h I s) = Inr False \<and> quiet s (snd (install_compiler h I s)))"
proof -
  have none: "find (which h (world s)) (compilers I) = None"
    if "\<forall>c \<in> set (compilers I). \<not> which h (world s) c"
    using that by (simp add: find_None_iff)
  have some: "fst (install_compiler h I s) = Inr True \<and> quiet s (snd (install_compiler h I s))"
    if "\<exists>c \<in> set (compilers I). which h (world s) c"
  proof -
    from that obtain c where "find (which h (world s)) (compilers I) = Some c"
      using compiler_found [of h s I] by auto
    then show ?thesis by (simp add: install_compiler_present)
  qed
  have list: "compilers I =
     (if is_windows (detector I) then [''g++'', ''clang++'', ''cl''] else [''g++'', ''clang++''])"
    by (simp add: compilers_def)
  have win: "fst (install_compiler h I s) = Inr True \<and> quiet s (snd (install_compiler h I s))
      \<and> stdout (snd (install_compiler h I s)) = stdout s @
           [''----- Installing C++ compiler -----'',
            ''Please ensure one of the following is installed:'',
            ''  - Visual Studio 2019/2022 with C++ workload'',
            ''  - Visual Studio Build Tools'',
            ''  - MinGW-w64'',
            ''  - Clang/LLVM'']"
    if "\<forall>c \<in> set (compilers I). \<not> which h (world s) c" "is_windows (detector I)"
    using none [OF that(1)] that(2) by (simp add: install_compiler_windows)
  have run: "dispatched (snd (install_compiler h I s)) = dispatched s @ [cmd]
      \<and> fst (install_compiler h I s) = outcome_of (fst (shell h (world s) cmd))"
    if "\<forall>c \<in> set (compilers I). \<not> which h (world s) c" "\<not> is_windows (detector I)"
      "mapped compiler_commands (pkg_mgr I) = Some cmd"
    using install_compiler_mapped [OF none [OF that(1)] that(2) that(3)] by simp
  have manual: "fst (install_compiler h I s) = Inr False \<and> quiet s (snd (install_compiler h I s))"
    if "\<forall>c \<in> set (compilers I). \<not> which h (world s) c" "\<not> is_windows (detector I)"
      "mapped compiler_commands (pkg_mgr I) = None"
    using install_compiler_unmapped [OF none [OF that(1)] that(2) that(3)] by simp
  from list some win run manual show ?thesis by blast
qed

theorem compiler_check_witness:
  "(\<exists>c \<in> set (compilers (installer_on exits_one linux_ready)).
       which (sample_host exits_one) (world (start linux_ready)) c)
   \<and> fst (install_compiler (sample_host exits_one) (installer_on exits_one linux_ready)
            (start linux_ready)) = Inr True
   \<and> find (which (sample_host exits_one) (world (start windows_bare)))
        (compilers (installer_on exits_one windows_bare)) = None
   \<and> is_windows (detector (installer_on exits_one windows_bare))
   \<and> fst (install_compiler (sample_host exits_one) (installer_on exits_one windows_bare)
            (start windows_bare)) = Inr True
   \<and> find (which (sample_host exits_one) (world (start linux_apt)))
        (compilers (installer_on exits_one linux_apt)) = None
   \<and> \<not> is_windows (detector (installer_on exits_one linux_apt))
   \<and> mapped compiler_commands (pkg_mgr (installer_on exits_one linux_apt))
       = Some ''sudo apt install -y build-essential''
   \<and> dispatched (snd (install_compiler (sample_host exits_one) (installer_on exits_one linux_apt)
                        (start linux_apt))) = [''sudo apt install -y build-essential'']
   \<and> fst (install_compiler (sample_host exits_one) (installer_on exits_one linux_apt)
            (start linux_apt)) = Inr False
   \<and> mapped compiler_commands (pkg_mgr (installer_on exits_one linux_bare)) = None
   \<and> fst (install_compiler (sample_host exits_one) (installer_on exits_one linux_bare)
            (start linux_bare)) = Inr False"
proof -
  let ?h = "sample_host exits_one"
  have r: "\<exists>c \<in> set (compilers (installer_on exits_one linux_ready)).
             which ?h (world (start linux_ready)) c"
    by code_simp
  have w: "\<forall>c \<in> set (compilers (installer_on exits_one windows_bare)).
             \<not> which ?h (world (start windows_bare)) c"
      "is_windows (detector (installer_on exits_one windows_bare))"
    by code_simp+
  have a: "\<forall>c \<in> set (compilers (installer_on exits_one linux_apt)).
             \<not> which ?h (world (start linux_apt)) c"
      "\<not> is_windows (detector (installer_on exits_one linux_apt))"
      "mapped compiler_commands (pkg_mgr (installer_on exits_one linux_apt))
         = Some ''sudo apt install -y build-essential''"
    by code_simp+
  have a': "dispatched (start linux_apt) = []"
      "outcome_of (fst (shell ?h (world (start linux_apt)) ''sudo apt install -y build-essential''))
         = Inr False"
    by code_simp+
  have b: "\<forall>c \<in> set (compilers (installer_on exits_one linux_bare)).
             \<not> which ?h (world (start linux_bare)) c"
      "\<not> is_windows (detector (installer_on exits_one linux_bare))"
      "mapped compiler_commands (pkg_mgr (installer_on exits_one linux_bare)) = None"
    by code_simp+
  from r compiler_check [of "installer_on exits_one linux_ready" ?h "start linux_ready"]
  have 1: "fst (install_compiler ?h (installer_on exits_one linux_ready) (start linux_ready))
           = Inr True"
    by blast
  from w compiler_check [of "installer_on exits_one windows_bare" ?h "start windows_bare"]
  have 2: "fst (install_compiler ?h (installer_on exits_one windows_bare) (start windows_bare))
           = Inr True"
    by blast
  from a compiler_check [of "installer_on exits_one linux_apt" ?h "start linux_apt"
      "''sudo apt install -y build-essential''"]
  have "dispatched (snd (install_compiler ?h (installer_on exits_one linux_apt) (start linux_apt)))
          = dispatched (start linux_apt) @ [''sudo apt install -y build-essential'']
      \<and> fst (install_compiler ?h (installer_on exits_one linux_apt) (start linux_apt))
          = outcome_of (fst (shell ?h (world (start linux_apt))
                               ''sudo apt install -y build-essential''))"
    by blast
  with a' have 3:
    "dispatched (snd (install_compiler ?h (installer_on exits_one linux_apt) (start linux_apt)))
       = [''sudo apt install -y build-essential'']
     \<and> fst (install_compiler ?h (installer_on exits_one linux_apt) (start linux_apt)) = Inr False"
    by simp
  from b compiler_check [of "installer_on exits_one linux_bare" ?h "start linux_bare"]
  have 4: "fst (install_compiler ?h (installer_on exits_one linux_bare) (start linux_bare))
           = Inr False"
    by blast
  have f: "find (which ?h (world (start windows_bare)))
             (compilers (installer_on exits_one windows_bare)) = None"
      "find (which ?h (world (start linux_apt)))
             (compilers (installer_on exits_one linux_apt)) = None"
    by code_simp+
  from r w a b f 1 2 3 4 show ?thesis by blast
qed

text \<open>
  The claim as first stated has an install command dispatched on every platform other than
  Windows. On a linux machine with no compiler and no package manager nothing is
  dispatched, and the outcome is failure.
\<close>

theorem compiler_no_manager_counterexample:
  "\<not> is_windows (detector (installer_on exits_zero linux_bare))
   \<and> find (which (sample_host exits_zero) (world (start linux_bare)))
        (compilers (installer_on exits_zero linux_bare)) = None
   \<and> dispatched (snd (install_compiler (sample_host exits_zero) (installer_on exits_zero linux_bare)
                        (start linux_bare))) = []
   \<and> fst (install_compiler (sample_host exits_zero) (installer_on exits_zero linux_bare)
            (start linux_bare)) = Inr False"
  by code_simp


section \<open>Coverage tools\<close>

text \<open>
  Claim C4, as the script has it. On a platform other than Windows with gcovr and lcov
  both missing: when the detected package manager has mappings for them, the gcovr command
  is dispatched, and whenever it returns an exit status, zero or not, the lcov command is
  dispatched after it (no short-circuit); the outcome is success if and only if both exit
  with status zero. When there is no such package manager, neither command is attempted
  and the outcome is failure.
\<close>

theorem coverage_both_missing:
  assumes "\<not> is_windows (detector I)"
    and "\<not> which h (world s) ''gcovr''" and "\<not> which h (world s) ''lcov''"
  shows "(mapped gcovr_commands (pkg_mgr I) = Some c1 \<and> mapped lcov_commands (pkg_mgr I) = Some c2
          \<and> shell h (world s) c1 = (Completed rc1 err1, w1) \<longrightarrow>
            dispatched (snd (install_coverage_tools h I s)) = dispatched s @ [c1, c2])
       \<and> (mapped gcovr_commands (pkg_mgr I) = Some c1 \<and> mapped lcov_commands (pkg_mgr I) = Some c2
          \<and> shell h (world s) c1 = (Completed rc1 err1, w1)
          \<and> shell h w1 c2 = (Completed rc2 err2, w2) \<longrightarrow>
            fst (install_coverage_tools h I s) = Inr (rc1 = 0 \<and> rc2 = 0))
       \<and> (mapped gcovr_commands (pkg_mgr I) = None \<longrightarrow>
            fst (install_coverage_tools h I s) = Inr False
            \<and> quiet s (snd (install_coverage_tools h I s)))"
proof -
  have run: "dispatched (snd (install_coverage_tools h I s)) = dispatched s @ [c1, c2]
      \<and> fst (install_coverage_tools h I s) =
          (case outcome_of (fst (shell h w1 c2)) of
             Inl e \<Rightarrow> Inl e | Inr b \<Rightarrow> Inr (rc1 = 0 \<and> b))"
    if m: "mapped gcovr_commands (pkg_mgr I) = Some c1" "mapped lcov_commands (pkg_mgr I) = Some c2"
      and first: "shell h (world s) c1 = (Completed rc1 err1, w1)"
  proof -
    obtain x s1 where g: "coverage_gcovr h I False True s = (x, s1)"
      by (cases "coverage_gcovr h I False True s")
    from coverage_gcovr_mapped [OF m(1), of h True s] g first
    have x: "x = Inr (rc1 = 0)" and s1: "dispatched s1 = dispatched s @ [c1]" "world s1 = w1"
      by simp_all
    from assms g x
    have "install_coverage_tools h I s = coverage_lcov h I False (rc1 = 0) s1"
      by (simp add: coverage_posix)
    with coverage_lcov_mapped [OF m(2), of h "rc1 = 0" s1] s1
    show ?thesis by simp
  qed
  have manual: "fst (install_coverage_tools h I s) = Inr False
      \<and> quiet s (snd (install_coverage_tools h I s))"
    if "mapped gcovr_commands (pkg_mgr I) = None"
  proof -
    from that have "mapped lcov_commands (pkg_mgr I) = None"
      by (simp add: same_managers)
    with that assms show ?thesis
      by (simp add: coverage_posix coverage_gcovr_unmapped coverage_lcov_unmapped)
  qed
  show ?thesis
    using run manual by auto
qed

theorem coverage_both_missing_witness:
  "\<not> is_windows (detector (installer_on gcovr_fails linux_apt))
   \<and> \<not> which (sample_host gcovr_fails) (world (start linux_apt)) ''gcovr''
   \<and> \<not> which (sample_host gcovr_fails) (world (start linux_apt)) ''lcov''
   \<and> mapped gcovr_commands (pkg_mgr (installer_on gcovr_fails linux_apt))
       = Some ''sudo apt install -y gcovr''
   \<and> mapped lcov_commands (pkg_mgr (installer_on gcovr_fails linux_apt))
       = Some ''sudo apt install -y lcov''
   \<and> shell (sample_host gcovr_fails) (world (start linux_apt)) ''sudo apt install -y gcovr''
       = (Completed 100 ''E: Unable to locate package gcovr'', linux_apt)
   \<and> shell (sample_host gcovr_fails) linux_apt ''sudo apt install -y lcov''
       = (Completed 0 [], linux_apt)
   \<and> dispatched (snd (install_coverage_tools (sample_host gcovr_fails)
                        (installer_on gcovr_fails linux_apt) (start linux_apt)))
       = [''sudo apt install -y gcovr'', ''sudo apt install -y lcov'']
   \<and> fst (install_coverage_tools (sample_host gcovr_fails) (installer_on gcovr_fails linux_apt)
            (start linux_apt)) = Inr False
   \<and> mapped gcovr_commands (pkg_mgr (installer_on gcovr_fails linux_bare)) = None
   \<and> fst (install_coverage_tools (sample_host gcovr_fails) (installer_on gcovr_fails linux_bare)
            (start linux_bare)) = Inr False"
proof -
  let ?h = "sample_host gcovr_fails"
  let ?A = "installer_on gcovr_fails linux_apt"
  let ?B = "installer_on gcovr_fails linux_bare"
  have a: "\<not> is_windows (detector ?A)"
      "\<not> which ?h (world (start linux_apt)) ''gcovr''"
      "\<not> which ?h (world (start linux_apt)) ''lcov''"
    by code_simp+
  have m: "mapped gcovr_commands (pkg_mgr ?A) = Some ''sudo apt install -y gcovr''"
      "mapped lcov_commands (pkg_mgr ?A) = Some ''sudo apt install -y lcov''"
    by code_simp+
  have sh: "shell ?h (world (start linux_apt)) ''sudo apt install -y gcovr''
              = (Completed 100 ''E: Unable to locate package gcovr'', linux_apt)"
      "shell ?h linux_apt ''sudo apt install -y lcov'' = (Completed 0 [], linux_apt)"
    by (simp_all add: sample_host_def gcovr_fails_def start_def)
  have e: "dispatched (start linux_apt) = []"
    by (simp add: start_def)
  have b: "\<not> is_windows (detector ?B)"
      "\<not> which ?h (world (start linux_bare)) ''gcovr''"
      "\<not> which ?h (world (start linux_bare)) ''lcov''"
      "mapped gcovr_commands (pkg_mgr ?B) = None"
    by code_simp+
  from coverage_both_missing [OF a, of "''sudo apt install -y gcovr''"
      "''sudo apt install -y lcov''" 100 "''E: Unable to locate package gcovr''" linux_apt
      0 "[]" linux_apt] m sh e
  have 1: "dispatched (snd (install_coverage_tools ?h ?A (start linux_apt)))
             = [''sudo apt install -y gcovr'', ''sudo apt install -y lcov'']
           \<and> fst (install_coverage_tools ?h ?A (start linux_apt)) = Inr False"
    by simp
  from coverage_both_missing [OF b(1,2,3)] b(4)
  have 2: "fst (install_coverage_tools ?h ?B (start linux_bare)) = Inr False"
    by blast
  from a m sh b(4) 1 2 show ?thesis by blast
qed

text \<open>
  The claim as first stated has both install commands attempted on every platform other
  than Windows where both tools are missing. On a linux machine with no package manager
  neither is attempted.
\<close>

theorem coverage_no_manager_counterexample:
  "\<not> is_windows (detector (installer_on exits_zero linux_bare))
   \<and> \<not> which (sample_host exits_zero) (world (start linux_bare)) ''gcovr''
   \<and> \<not> which (sample_host exits_zero) (world (start linux_bare)) ''lcov''
   \<and> dispatched (snd (install_coverage_tools (sample_host exits_zero)
                        (installer_on exits_zero linux_bare) (start linux_bare))) = []"
  by code_simp


section \<open>Platforms other than Windows\<close>

lemma coverage_lcov_extends:
  "\<exists>cs. dispatched (snd (coverage_lcov h I present ok s)) = dispatched s @ cs"
proof (cases present)
  case True
  then show ?thesis by (simp add: coverage_lcov_present)
next
  case False
  show ?thesis
  proof (cases "mapped lcov_commands (pkg_mgr I)")
    case None
    with False show ?thesis by (simp add: coverage_lcov_unmapped)
  next
    case (Some c)
    with False coverage_lcov_mapped [OF Some, of h ok s] show ?thesis by simp
  qed
qed

lemma coverage_posix_unmapped:
  assumes "\<not> is_windows (detector I)"
    "\<not> (which h (world s) ''gcovr'' \<and> which h (world s) ''lcov'')"
    "mapped gcovr_commands (pkg_mgr I) = None"
  shows "fst (install_coverage_tools h I s) = Inr False"
proof -
  from assms(3) have "mapped lcov_commands (pkg_mgr I) = None"
    by (simp add: same_managers)
  with assms show ?thesis
    by (cases "which h (world s) ''gcovr''"; cases "which h (world s) ''lcov''")
       (simp_all add: coverage_posix coverage_gcovr_present coverage_lcov_present
          coverage_gcovr_unmapped coverage_lcov_unmapped)
qed

lemma coverage_posix_mapped:
  assumes nw: "\<not> is_windows (detector I)"
    and missing: "\<not> (which h (world s) ''gcovr'' \<and> which h (world s) ''lcov'')"
    and m: "mapped gcovr_commands (pkg_mgr I) = Some c1"
  shows "dispatched (snd (install_coverage_tools h I s)) \<noteq> dispatched s"
proof -
  obtain c2 where m2: "mapped lcov_commands (pkg_mgr I) = Some c2"
    using m same_managers [of "pkg_mgr I"] by (cases "mapped lcov_commands (pkg_mgr I)") auto
  show ?thesis
  proof (cases "which h (world s) ''gcovr''")
    case True
    with missing have l: "\<not> which h (world s) ''lcov''" by simp
    from nw True l coverage_lcov_mapped [OF m2, of h True "print (check_mark @ '' gcovr: Already installed'') s"]
    show ?thesis
      by (simp add: coverage_posix coverage_gcovr_present)
  next
    case False
    obtain x s1 where g: "coverage_gcovr h I False True s = (x, s1)"
      by (cases "coverage_gcovr h I False True s")
    from coverage_gcovr_mapped [OF m, of h True s] g
    have s1: "dispatched s1 = dispatched s @ [c1]" by simp
    show ?thesis
    proof (cases x)
      case (Inl e)
      with nw missing False g s1 show ?thesis
        by (simp add: coverage_posix)
    next
      case (Inr ok)
      obtain cs where "dispatched (snd (coverage_lcov h I (which h (world s) ''lcov'') ok s1))
                       = dispatched s1 @ cs"
        using coverage_lcov_extends by blast
      with nw missing False g s1 Inr show ?thesis
        by (simp add: coverage_posix)
    qed
  qed
qed

text \<open>
  Claim C10. On a machine whose lower-cased system string is not \<^verbatim>\<open>windows\<close> (linux,
  darwin or anything unrecognized), the installer built by detection takes the branches
  for platforms other than Windows. Its compiler candidate list is exactly g++, clang++:
  the compiler check succeeds without a command exactly when one of these two is on the
  path, whether or not cl is. Coverage provisioning succeeds without a command exactly
  when gcovr and lcov are both on the path, whether or not OpenCppCoverage is.
\<close>

theorem non_windows_branches:
  assumes "lower (platform_system h w) \<noteq> ''windows''"
    and "I = ToolInstaller_init h (SystemDetector_init h w) w"
  shows "\<not> is_windows (detector I)
       \<and> compilers I = [''g++'', ''clang++'']
       \<and> ((fst (install_compiler h I s) = Inr True \<and> quiet s (snd (install_compiler h I s)))
            \<longleftrightarrow> (which h (world s) ''g++'' \<or> which h (world s) ''clang++''))
       \<and> ((fst (install_coverage_tools h I s) = Inr True
             \<and> quiet s (snd (install_coverage_tools h I s)))
            \<longleftrightarrow> (which h (world s) ''gcovr'' \<and> which h (world s) ''lcov''))"
proof -
  from assms have nw: "\<not> is_windows (detector I)"
    by (simp add: ToolInstaller_init_def SystemDetector_init_def Let_def)
  then have list: "compilers I = [''g++'', ''clang++'']"
    by (simp add: compilers_def)
  have compiler: "(fst (install_compiler h I s) = Inr True \<and> quiet s (snd (install_compiler h I s)))
            \<longleftrightarrow> (which h (world s) ''g++'' \<or> which h (world s) ''clang++'')"
  proof (cases "find (which h (world s)) (compilers I)")
    case (Some c)
    then have "which h (world s) ''g++'' \<or> which h (world s) ''clang++''"
      using compiler_found [of h s I] list by auto
    with Some show ?thesis by (simp add: install_compiler_present)
  next
    case None
    then have "\<not> (\<exists>c. c \<in> set (compilers I) \<and> which h (world s) c)"
      by (simp add: find_None_iff)
    then have absent: "\<not> (which h (world s) ''g++'' \<or> which h (world s) ''clang++'')"
      unfolding list by auto
    show ?thesis
    proof (cases "mapped compiler_commands (pkg_mgr I)")
      case none: None
      from install_compiler_unmapped [OF None nw none] absent show ?thesis by simp
    next
      case (Some cmd)
      from install_compiler_mapped [OF None nw Some] absent show ?thesis
        by (simp add: quiet_def)
    qed
  qed
  have coverage: "(fst (install_coverage_tools h I s) = Inr True
             \<and> quiet s (snd (install_coverage_tools h I s)))
            \<longleftrightarrow> (which h (world s) ''gcovr'' \<and> which h (world s) ''lcov'')"
  proof (cases "which h (world s) ''gcovr'' \<and> which h (world s) ''lcov''")
    case True
    with nw show ?thesis by (simp add: coverage_both_present)
  next
    case False
    show ?thesis
    proof (cases "mapped gcovr_commands (pkg_mgr I)")
      case None
      from coverage_posix_unmapped [OF nw False None] False show ?thesis by simp
    next
      case (Some c1)
      from coverage_posix_mapped [OF nw False Some] False show ?thesis
        by (simp add: quiet_def)
    qed
  qed
  from nw list compiler coverage show ?thesis by blast
qed

theorem non_windows_branches_witness:
  "lower (platform_system (sample_host exits_zero) freebsd_cl) \<noteq> ''windows''
   \<and> which (sample_host exits_zero) (world (start freebsd_cl)) ''cl''
   \<and> which (sample_host exits_zero) (world (start freebsd_cl)) ''OpenCppCoverage''
   \<and> compilers (installer_on exits_zero freebsd_cl) = [''g++'', ''clang++'']
   \<and> \<not> (fst (install_compiler (sample_host exits_zero) (installer_on exits_zero freebsd_cl)
                (start freebsd_cl)) = Inr True
         \<and> quiet (start freebsd_cl)
              (snd (install_compiler (sample_host exits_zero) (installer_on exits_zero freebsd_cl)
                      (start freebsd_cl))))
   \<and> \<not> (fst (install_coverage_tools (sample_host exits_zero) (installer_on exits_zero freebsd_cl)
                (start freebsd_cl)) = Inr True
         \<and> quiet (start freebsd_cl)
              (snd (install_coverage_tools (sample_host exits_zero)
                      (installer_on exits_zero freebsd_cl) (start freebsd_cl))))"
proof -
  let ?h = "sample_host exits_zero"
  have a: "lower (platform_system ?h freebsd_cl) \<noteq> ''windows''"
    by code_simp
  have b: "installer_on exits_zero freebsd_cl
             = ToolInstaller_init ?h (SystemDetector_init ?h freebsd_cl) freebsd_cl"
    by (simp add: installer_on_def)
  have c: "which ?h (world (start freebsd_cl)) ''cl''"
      "which ?h (world (start freebsd_cl)) ''OpenCppCoverage''"
      "\<not> which ?h (world (start freebsd_cl)) ''g++''"
      "\<not> which ?h (world (start freebsd_cl)) ''clang++''"
      "\<not> which ?h (world (start freebsd_cl)) ''gcovr''"
    by code_simp+
  from non_windows_branches [OF a b, of "start freebsd_cl"] a c
  show ?thesis by blast
qed


section \<open>The whole run\<close>

lemma outcome_of_Inl: "outcome_of p = Inl e \<Longrightarrow> e = SubprocessFailure \<and> p = Raised"
  by (cases p) simp_all

lemma run_command_raise:
  "fst (run_command h c d s) = Inl e \<Longrightarrow> e = SubprocessFailure \<and> \<not> returns_status h"
  by (auto simp add: run_command_outcome returns_status_def dest!: outcome_of_Inl)

lemma and_assign_raise:
  "fst (and_assign b r) = Inl e \<Longrightarrow> fst r = Inl e"
  by (simp add: and_assign_fst split: sum.splits)

lemma install_cmake_raise:
  "fst (install_cmake h I s) = Inl e \<Longrightarrow> e = SubprocessFailure \<and> \<not> returns_status h"
  by (auto simp add: install_cmake_def check_tool_no_minimum Let_def split: if_splits
        dest!: run_command_raise)

lemma install_git_raise:
  "fst (install_git h I s) = Inl e \<Longrightarrow> e = SubprocessFailure \<and> \<not> returns_status h"
  by (auto simp add: install_git_def check_tool_no_minimum Let_def split: if_splits
        dest!: run_command_raise)

lemma install_doxygen_raise:
  "fst (install_doxygen h I s) = Inl e \<Longrightarrow> e = SubprocessFailure \<and> \<not> returns_status h"
  by (auto simp add: install_doxygen_def check_tool_no_minimum Let_def split: if_splits
        dest!: run_command_raise)

lemma install_compiler_raise:
  "fst (install_compiler h I s) = Inl e \<Longrightarrow> e = SubprocessFailure \<and> \<not> returns_status h"
  by (auto simp add: install_compiler_def Let_def split: if_splits option.splits
        dest!: run_command_raise)

lemma coverage_gcovr_raise:
  "fst (coverage_gcovr h I g ok s) = Inl e \<Longrightarrow> e = SubprocessFailure \<and> \<not> returns_status h"
  by (auto simp add: coverage_gcovr_def split: if_splits
        dest!: and_assign_raise run_command_raise)

lemma coverage_lcov_raise:
  "fst (coverage_lcov h I g ok s) = Inl e \<Longrightarrow> e = SubprocessFailure \<and> \<not> returns_status h"
  by (auto simp add: coverage_lcov_def split: if_splits
        dest!: and_assign_raise run_command_raise)

lemma install_coverage_tools_raise:
  assumes "fst (install_coverage_tools h I s) = Inl e"
  shows "e = SubprocessFailure \<and> \<not> returns_status h"
proof (cases "is_windows (detector I)")
  case True
  with assms show ?thesis
    by (auto simp add: install_coverage_tools_def split: if_splits dest!: run_command_raise)
next
  case False
  show ?thesis
  proof (cases "which h (world s) ''gcovr'' \<and> which h (world s) ''lcov''")
    case True
    with False assms show ?thesis by (simp add: coverage_both_present)
  next
    case missing: False
    obtain x s1 where g: "coverage_gcovr h I (which h (world s) ''gcovr'') True s = (x, s1)"
      by (cases "coverage_gcovr h I (which h (world s) ''gcovr'') True s")
    show ?thesis
    proof (cases x)
      case (Inl e')
      with g assms False missing have "e' = e" by (simp add: coverage_posix)
      with Inl g coverage_gcovr_raise [of h I "which h (world s) ''gcovr''" True s e]
      show ?thesis by simp
    next
      case (Inr ok)
      with g assms False missing
      have "fst (coverage_lcov h I (which h (world s) ''lcov'') ok s1) = Inl e"
        by (simp add: coverage_posix)
      then show ?thesis by (rule coverage_lcov_raise)
    qed
  qed
qed

lemma raise_is_subprocess_failure:
  "install_cmake h I s = (Inl e, s') \<Longrightarrow> e = SubprocessFailure"
  "install_compiler h I s = (Inl e, s') \<Longrightarrow> e = SubprocessFailure"
  "install_git h I s = (Inl e, s') \<Longrightarrow> e = SubprocessFailure"
  "install_coverage_tools h I s = (Inl e, s') \<Longrightarrow> e = SubprocessFailure"
  "install_doxygen h I s = (Inl e, s') \<Longrightarrow> e = SubprocessFailure"
  using install_cmake_raise [of h I s e] install_compiler_raise [of h I s e]
    install_git_raise [of h I s e] install_coverage_tools_raise [of h I s e]
    install_doxygen_raise [of h I s e]
  by simp_all

lemma raise_needs_raising_host:
  "install_cmake h I s = (Inl e, s') \<Longrightarrow> \<not> returns_status h"
  "install_compiler h I s = (Inl e, s') \<Longrightarrow> \<not> returns_status h"
  "install_git h I s = (Inl e, s') \<Longrightarrow> \<not> returns_status h"
  "install_coverage_tools h I s = (Inl e, s') \<Longrightarrow> \<not> returns_status h"
  "install_doxygen h I s = (Inl e, s') \<Longrightarrow> \<not> returns_status h"
  using install_cmake_raise [of h I s e] install_compiler_raise [of h I s e]
    install_git_raise [of h I s e] install_coverage_tools_raise [of h I s e]
    install_doxygen_raise [of h I s e]
  by simp_all


lemma counted_then:
  "(case counted r c k of (Inl e, s') \<Rightarrow> (Inl e, s') | (Inr n, s') \<Rightarrow> g n s')
   = counted r c (\<lambda>n s. case k n s of (Inl e, s') \<Rightarrow> (Inl e, s') | (Inr n', s') \<Rightarrow> g n' s')"
  by (simp add: counted_def split: prod.splits sum.splits)

lemma provision_tally:
  "provision h I opt s =
     (case tally (tool_sequence h I opt) 0 s of
        (Inl e, s') \<Rightarrow> (Inl e, s')
      | (Inr n, s') \<Rightarrow> (Inr (n, if opt then 5 else 4), s'))"
  by (cases opt)
     (simp_all add: provision_def tool_sequence_def optional_header_def counted_then)

lemma tally_raise:
  "tally fs c s = (Inl e, s') \<Longrightarrow> Inl e \<in> set (attempts fs s)"
proof (induction fs arbitrary: c s)
  case Nil
  then show ?case by simp
next
  case (Cons f fs)
  obtain x s1 where r: "f s = (x, s1)" by (cases "f s")
  show ?case
  proof (cases x)
    case (Inl e')
    with r Cons.prems show ?thesis by (simp add: counted_def)
  next
    case (Inr ok)
    with r Cons.prems
    have "tally fs (if ok then c + 1 else c) s1 = (Inl e, s')"
      by (simp add: counted_def)
    from Cons.IH [OF this] r Inr show ?thesis by simp
  qed
qed

lemma tally_return:
  "tally fs c s = (Inr n, s') \<Longrightarrow>
     n = c + length (filter (\<lambda>r. r = Inr True) (attempts fs s))
     \<and> length (attempts fs s) = length fs
     \<and> (\<forall>e. Inl e \<notin> set (attempts fs s))"
proof (induction fs arbitrary: c s)
  case Nil
  then show ?case by simp
next
  case (Cons f fs)
  obtain x s1 where r: "f s = (x, s1)" by (cases "f s")
  show ?case
  proof (cases x)
    case (Inl e')
    with r Cons.prems show ?thesis by (simp add: counted_def)
  next
    case (Inr ok)
    with r Cons.prems
    have "tally fs (if ok then c + 1 else c) s1 = (Inr n, s')"
      by (simp add: counted_def)
    from Cons.IH [OF this] r Inr show ?thesis by auto
  qed
qed

lemma attempts_raise_origin:
  "Inl e \<in> set (attempts fs s) \<Longrightarrow> \<exists>f \<in> set fs. \<exists>s1 s2. f s1 = (Inl e, s2)"
proof (induction fs arbitrary: s)
  case Nil
  then show ?case by simp
next
  case (Cons f fs)
  obtain x s1 where r: "f s = (x, s1)" by (cases "f s")
  show ?case
  proof (cases x)
    case (Inl e')
    with r Cons.prems have "f s = (Inl e, s1)" by simp
    then show ?thesis by auto
  next
    case (Inr ok)
    with r Cons.prems have "Inl e \<in> set (attempts fs s1)" by simp
    from Cons.IH [OF this] show ?thesis by auto
  qed
qed

lemma sequence_raise:
  assumes "Inl e \<in> set (attempts (tool_sequence h I opt) s)"
  shows "e = SubprocessFailure \<and> \<not> returns_status h"
proof -
  from attempts_raise_origin [OF assms]
  obtain f s1 s2 where f: "f \<in> set (tool_sequence h I opt)" "f s1 = (Inl e, s2)"
    by blast
  from f(1) have "f = install_cmake h I \<or> f = install_compiler h I \<or> f = install_git h I
      \<or> f = install_coverage_tools h I \<or> f = (\<lambda>s. install_doxygen h I (optional_header s))"
    by (auto simp add: tool_sequence_def split: if_splits)
  with f(2) show ?thesis
    using raise_is_subprocess_failure raise_needs_raising_host by metis
qed

lemma sequence_length: "length (tool_sequence h I opt) = (if opt then 5 else 4)"
  by (simp add: tool_sequence_def)

text \<open>What \<open>provision\<close> returns, read off the outcomes of the attempted tools.\<close>

lemma provision_returns:
  assumes "\<forall>e. Inl e \<notin> set (attempts (tool_sequence h I opt) s)"
  shows "\<exists>s'. provision h I opt s =
           (Inr (length (filter (\<lambda>r. r = Inr True) (attempts (tool_sequence h I opt) s)),
                 if opt then 5 else 4), s')"
    and "length (attempts (tool_sequence h I opt) s) = (if opt then 5 else 4)"
proof -
  obtain x s' where t: "tally (tool_sequence h I opt) 0 s = (x, s')"
    by (cases "tally (tool_sequence h I opt) 0 s")
  from assms tally_raise [of "tool_sequence h I opt" 0 s _ s'] t obtain n where x: "x = Inr n"
    by (cases x) auto
  from tally_return [of "tool_sequence h I opt" 0 s n s'] t x
  have n: "n = length (filter (\<lambda>r. r = Inr True) (attempts (tool_sequence h I opt) s))"
    and l: "length (attempts (tool_sequence h I opt) s) = length (tool_sequence h I opt)"
    by simp_all
  from t x n show "\<exists>s'. provision h I opt s =
           (Inr (length (filter (\<lambda>r. r = Inr True) (attempts (tool_sequence h I opt) s)),
                 if opt then 5 else 4), s')"
    by (simp add: provision_tally)
  from l show "length (attempts (tool_sequence h I opt) s) = (if opt then 5 else 4)"
    by (simp add: sequence_length)
qed

lemma provision_raises:
  assumes "Inl e \<in> set (attempts (tool_sequence h I opt) s)"
  shows "\<exists>s'. provision h I opt s = (Inl SubprocessFailure, s')"
proof -
  obtain x s' where t: "tally (tool_sequence h I opt) 0 s = (x, s')"
    by (cases "tally (tool_sequence h I opt) 0 s")
  show ?thesis
  proof (cases x)
    case (Inl e')
    from tally_raise [of "tool_sequence h I opt" 0 s e' s'] t Inl
    have "Inl e' \<in> set (attempts (tool_sequence h I opt) s)" by simp
    then have "e' = SubprocessFailure" using sequence_raise by blast
    with t Inl show ?thesis by (simp add: provision_tally)
  next
    case (Inr n)
    from tally_return [of "tool_sequence h I opt" 0 s n s'] t Inr assms
    show ?thesis by simp
  qed
qed

lemma report_fst:
  "fst (report sc tt s) = (if sc = tt then Inr () else Inl (SystemExit 1))"
  by (simp add: report_def Let_def)

lemma report_quiet: "quiet s (snd (report sc tt s))"
  by (simp add: report_def Let_def)

lemma all_counted:
  "(length (filter P xs) = length xs) = (\<forall>x \<in> set xs. P x)"
proof
  assume eq: "length (filter P xs) = length xs"
  show "\<forall>x \<in> set xs. P x"
  proof
    fix x assume "x \<in> set xs"
    then show "P x" using length_filter_less [of x xs P] eq by auto
  qed
next
  assume "\<forall>x \<in> set xs. P x"
  then show "length (filter P xs) = length xs" by simp
qed


lemma main_by_provision:
  "banner h st = (I, s) \<Longrightarrow>
   main h opt st =
     (case provision h I opt s of
        (Inl e, s2) \<Rightarrow> (Inl e, s2)
      | (Inr (sc, tt), s2) \<Rightarrow> report sc tt s2)"
  by (simp add: main_def)

lemma exit_status_main:
  assumes b: "banner h st = (I, s)"
  shows "exit_status (fst (main h opt st)) =
           (if \<forall>r \<in> set (attempts (tool_sequence h I opt) s). r = Inr True then 0 else 1)"
proof (cases "\<exists>e. Inl e \<in> set (attempts (tool_sequence h I opt) s)")
  case True
  then obtain e where e: "Inl e \<in> set (attempts (tool_sequence h I opt) s)" by blast
  from provision_raises [OF e] obtain s' where "provision h I opt s = (Inl SubprocessFailure, s')"
    by blast
  with b have "exit_status (fst (main h opt st)) = 1"
    by (simp add: main_by_provision)
  moreover from e have "\<not> (\<forall>r \<in> set (attempts (tool_sequence h I opt) s). r = Inr True)"
    by auto
  ultimately show ?thesis by simp
next
  case False
  then have none: "\<forall>e. Inl e \<notin> set (attempts (tool_sequence h I opt) s)" by simp
  from provision_returns [OF none] obtain s' where
    p: "provision h I opt s =
          (Inr (length (filter (\<lambda>r. r = Inr True) (attempts (tool_sequence h I opt) s)),
                if opt then 5 else 4), s')"
    and l: "length (attempts (tool_sequence h I opt) s) = (if opt then 5 else 4)"
    by blast
  from b p have "fst (main h opt st) =
      (if length (filter (\<lambda>r. r = Inr True) (attempts (tool_sequence h I opt) s))
            = length (attempts (tool_sequence h I opt) s)
       then Inr () else Inl (SystemExit 1))"
    by (simp add: main_by_provision report_fst l)
  then show ?thesis
    by (simp add: all_counted)
qed

section \<open>Exit status\<close>

text \<open>
  Claim C2. For every run, the exit status of the process is 0 if every attempted tool
  succeeded and 1 otherwise. Whenever the counters are reached, the total is 4 without
  \<^verbatim>\<open>--install-optional\<close> and 5 with it, it is the number of tools attempted, the success
  count is the number of them that succeeded, and the status is 0 exactly when the two
  counters are equal. The flag adds the documentation generator as fifth tool of the
  sequence: when the four required tools succeed and it alone fails, the status is 0
  without the flag and 1 with it.
\<close>

theorem exit_status_all_succeeded:
  assumes "banner h st = (I, s)"
  shows "exit_status (fst (main h opt st)) =
           (if \<forall>r \<in> set (attempts (tool_sequence h I opt) s). r = Inr True then 0 else 1)
       \<and> (\<forall>sc tt s'. provision h I opt s = (Inr (sc, tt), s') \<longrightarrow>
             tt = (if opt then 5 else 4)
             \<and> length (attempts (tool_sequence h I opt) s) = tt
             \<and> sc = length (filter (\<lambda>r. r = Inr True) (attempts (tool_sequence h I opt) s))
             \<and> (exit_status (fst (main h opt st)) = 0 \<longleftrightarrow> sc = tt))
       \<and> tool_sequence h I True
            = tool_sequence h I False @ [\<lambda>s. install_doxygen h I (optional_header s)]
       \<and> length (tool_sequence h I False) = 4
       \<and> ((\<forall>r \<in> set (attempts (tool_sequence h I False) s). r = Inr True)
            \<and> attempts (tool_sequence h I True) s
                = attempts (tool_sequence h I False) s @ [Inr False] \<longrightarrow>
             exit_status (fst (main h False st)) = 0 \<and> exit_status (fst (main h True st)) = 1)"
proof -
  let ?A = "attempts (tool_sequence h I opt) s"
  have counters: "tt = (if opt then 5 else 4) \<and> length ?A = tt
      \<and> sc = length (filter (\<lambda>r. r = Inr True) ?A)
      \<and> (exit_status (fst (main h opt st)) = 0 \<longleftrightarrow> sc = tt)"
    if p: "provision h I opt s = (Inr (sc, tt), s')" for sc tt s'
  proof -
    obtain x s1 where t: "tally (tool_sequence h I opt) 0 s = (x, s1)"
      by (cases "tally (tool_sequence h I opt) 0 s")
    from p t obtain n where x: "x = Inr n"
      by (cases x) (simp_all add: provision_tally)
    from p t x have sc: "sc = n" and tt: "tt = (if opt then 5 else 4)"
      by (simp_all add: provision_tally)
    from tally_return [of "tool_sequence h I opt" 0 s n s1] t x
    have n: "n = length (filter (\<lambda>r. r = Inr True) ?A)"
      and l: "length ?A = length (tool_sequence h I opt)"
      by simp_all
    from assms p have "exit_status (fst (main h opt st)) = (if sc = tt then 0 else 1)"
      by (simp add: main_by_provision report_fst)
    with sc tt n l show ?thesis
      by (simp add: sequence_length)
  qed
  have alone: "exit_status (fst (main h False st)) = 0 \<and> exit_status (fst (main h True st)) = 1"
    if "\<forall>r \<in> set (attempts (tool_sequence h I False) s). r = Inr True"
      "attempts (tool_sequence h I True) s = attempts (tool_sequence h I False) s @ [Inr False]"
    using that exit_status_main [OF assms, of False] exit_status_main [OF assms, of True]
    by simp
  from exit_status_main [OF assms, of opt] counters alone show ?thesis
    by (simp add: tool_sequence_def)
qed


theorem exit_status_all_succeeded_witness:
  "attempts (tool_sequence (sample_host exits_one)
       (fst (banner (sample_host exits_one) (start linux_ready))) False)
     (snd (banner (sample_host exits_one) (start linux_ready)))
     = [Inr True, Inr True, Inr True, Inr True]
   \<and> fst (provision (sample_host exits_one)
        (fst (banner (sample_host exits_one) (start linux_ready))) False
        (snd (banner (sample_host exits_one) (start linux_ready)))) = Inr (4, 4)
   \<and> exit_status (fst (main (sample_host exits_one) False (start linux_ready))) = 0
   \<and> attempts (tool_sequence (sample_host exits_one)
         (fst (banner (sample_host exits_one) (start linux_no_doxygen))) True)
       (snd (banner (sample_host exits_one) (start linux_no_doxygen)))
       = [Inr True, Inr True, Inr True, Inr True, Inr False]
   \<and> exit_status (fst (main (sample_host exits_one) False (start linux_no_doxygen))) = 0
   \<and> exit_status (fst (main (sample_host exits_one) True (start linux_no_doxygen))) = 1"
proof -
  let ?h = "sample_host exits_one"
  let ?I = "fst (banner ?h (start linux_ready))"
  let ?s = "snd (banner ?h (start linux_ready))"
  let ?J = "fst (banner ?h (start linux_no_doxygen))"
  let ?t = "snd (banner ?h (start linux_no_doxygen))"
  have a: "attempts (tool_sequence ?h ?I False) ?s = [Inr True, Inr True, Inr True, Inr True]"
    by code_simp
  have p: "fst (provision ?h ?I False ?s) = Inr (4, 4)"
    by code_simp
  have b: "attempts (tool_sequence ?h ?J False) ?t = [Inr True, Inr True, Inr True, Inr True]"
    by code_simp
  have c: "attempts (tool_sequence ?h ?J True) ?t
           = [Inr True, Inr True, Inr True, Inr True, Inr False]"
    by code_simp
  from a exit_status_all_succeeded [where h = ?h and st = "start linux_ready" and opt = False,
      OF prod.collapse [symmetric]]
  have 1: "exit_status (fst (main ?h False (start linux_ready))) = 0"
    by simp
  from b c
    exit_status_all_succeeded [where h = ?h and st = "start linux_no_doxygen" and opt = False,
      OF prod.collapse [symmetric]]
  have 2: "exit_status (fst (main ?h False (start linux_no_doxygen))) = 0
           \<and> exit_status (fst (main ?h True (start linux_no_doxygen))) = 1"
    by simp
  from a p c 1 2 show ?thesis by simp
qed

section \<open>Failures and the rest of the run\<close>

text \<open>
  When no attempted tool raises, the run goes through the whole sequence: every tool is
  attempted (four, or five with the optional one), the success count is the number of
  successes, so each failure is counted, the exit status is decided by \<open>report\<close> on the
  state the last tool left, and it is 1 exactly when some tool failed. A tool that returns
  failure, as after a non-zero exit status of its install command, halts nothing.
\<close>

lemma failures_counted:
  assumes none: "\<forall>e. Inl e \<notin> set (attempts (tool_sequence h I opt) s)"
    and b: "banner h st = (I, s)"
  shows "length (attempts (tool_sequence h I opt) s) = (if opt then 5 else 4)
       \<and> (\<exists>s'. provision h I opt s =
              (Inr (length (filter (\<lambda>r. r = Inr True) (attempts (tool_sequence h I opt) s)),
                    if opt then 5 else 4), s')
            \<and> main h opt st =
                report (length (filter (\<lambda>r. r = Inr True) (attempts (tool_sequence h I opt) s)))
                  (if opt then 5 else 4) s')
       \<and> exit_status (fst (main h opt st))
           = (if Inr False \<in> set (attempts (tool_sequence h I opt) s) then 1 else 0)"
proof -
  let ?A = "attempts (tool_sequence h I opt) s"
  from provision_returns [OF none] obtain s' where
    p: "provision h I opt s =
          (Inr (length (filter (\<lambda>r. r = Inr True) ?A), if opt then 5 else 4), s')"
    and l: "length ?A = (if opt then 5 else 4)"
    by blast
  from b p have m: "main h opt st =
      report (length (filter (\<lambda>r. r = Inr True) ?A)) (if opt then 5 else 4) s'"
    by (simp add: main_by_provision)
  have "(\<forall>r \<in> set ?A. r = Inr True) = (Inr False \<notin> set ?A)"
  proof
    assume "\<forall>r \<in> set ?A. r = Inr True"
    then show "Inr False \<notin> set ?A" by auto
  next
    assume f: "Inr False \<notin> set ?A"
    show "\<forall>r \<in> set ?A. r = Inr True"
    proof
      fix r assume r: "r \<in> set ?A"
      show "r = Inr True"
      proof (cases r)
        case (Inl e)
        with none r show ?thesis by auto
      next
        case (Inr ok)
        with f r show ?thesis by (cases ok) auto
      qed
    qed
  qed
  with exit_status_main [OF b, of opt]
  have "exit_status (fst (main h opt st)) = (if Inr False \<in> set ?A then 1 else 0)"
    by simp
  with p l m show ?thesis by blast
qed

text \<open>On a host where every command returns an exit status no tool raises.\<close>

lemma no_raise_on_returning_host:
  "returns_status h \<Longrightarrow> \<forall>e. Inl e \<notin> set (attempts (tool_sequence h I opt) s)"
  using sequence_raise [of _ h I opt s] by blast

text \<open>A linux machine with \<^verbatim>\<open>apt\<close> and nothing else, every command exiting with status
  1: all five install commands are dispatched, and then the run exits with status 1.\<close>

lemma failing_commands_all_dispatched:
  "dispatched (snd (main (sample_host exits_one) False (start linux_apt)))
     = [''sudo apt update && sudo apt install -y cmake'',
        ''sudo apt install -y build-essential'',
        ''sudo apt install -y git'',
        ''sudo apt install -y gcovr'',
        ''sudo apt install -y lcov'']
   \<and> fst (main (sample_host exits_one) False (start linux_apt)) = Inl (SystemExit 1)"
  by code_simp

text \<open>
  Claim C8. A failure in the provisioning of a single tool never halts the run: the
  remaining tools are still evaluated, the failure is counted, and the process signals
  failure through its exit status only after all checks. The script does not keep to this
  when the invocation of an install command raises an error other than a non-zero exit
  status (the shell cannot be spawned, the captured output cannot be decoded):
  \<open>run_command\<close>, whose docstring promises error handling, names only
  \<^verbatim>\<open>CalledProcessError\<close> in its handler, where \<open>check_tool\<close> catches whatever the same call
  raises. On the linux machine with \<^verbatim>\<open>apt\<close> and nothing else, on a host where the
  invocation raises, the run ends inside the first tool: the cmake command is the only one
  dispatched, cmake is the only tool attempted out of the four of the sequence, the
  exception leaves \<open>main\<close>, and no summary line is printed.
\<close>

theorem raising_command_halts_run:
  "fst (main (sample_host raises) False (start linux_apt)) = Inl SubprocessFailure
   \<and> dispatched (snd (main (sample_host raises) False (start linux_apt)))
       = [''sudo apt update && sudo apt install -y cmake'']
   \<and> attempts (tool_sequence (sample_host raises)
         (fst (banner (sample_host raises) (start linux_apt))) False)
       (snd (banner (sample_host raises) (start linux_apt))) = [Inl SubprocessFailure]
   \<and> length (tool_sequence (sample_host raises)
         (fst (banner (sample_host raises) (start linux_apt))) False) = 4
   \<and> last (stdout (snd (main (sample_host raises) False (start linux_apt))))
       = package @ '' Installing CMake via apt''"
  by code_simp

end
